theory Spec2Isabelle
  imports Complex_Main "HOL-Library.Sublist" "HOL-Library.Multiset"
begin

section \<open>Text helpers\<close>

text \<open>
  Python's \<^verbatim>\<open>s.strip()\<close> removes the leading and the trailing run of whitespace.
  The text is a list over any alphabet, with the whitespace test as a parameter, so that
  the development does not depend on which code points Python counts as whitespace.
\<close>

definition strip_by :: "('a \<Rightarrow> bool) \<Rightarrow> 'a list \<Rightarrow> 'a list" where
  "strip_by sp s = rev (dropWhile sp (rev (dropWhile sp s)))"

text \<open>
  Python's slice \<^verbatim>\<open>xs[i:j]\<close> on integers: a negative bound counts from the end, and
  both bounds are clipped to the list.
\<close>

definition py_bound :: "int \<Rightarrow> int \<Rightarrow> int" where
  "py_bound n i = (if i < 0 then max 0 (i + n) else min i n)"

definition py_slice :: "'a list \<Rightarrow> int \<Rightarrow> int \<Rightarrow> 'a list" where
  "py_slice xs i j =
     (let n = int (length xs); lo = py_bound n i; hi = py_bound n j
      in take (nat (hi - lo)) (drop (nat lo) xs))"

text \<open>
  Strings are byte strings (UTF-8): the ASCII part of Python's \<^verbatim>\<open>str.isspace\<close> and
  \<^verbatim>\<open>str.lower\<close> is modelled, which is exact for ASCII text such as the provider names
  of the provider table. Non-ASCII literals of the source are written as their UTF-8 bytes.
\<close>

definition is_space :: "char \<Rightarrow> bool" where
  "is_space c = ((of_char c :: nat) \<in> {9, 10, 11, 12, 13, 28, 29, 30, 31, 32})"

definition py_strip :: "string \<Rightarrow> string" where
  "py_strip s = strip_by is_space s"

definition lower_char :: "char \<Rightarrow> char" where
  "lower_char c = (let n = (of_char c :: nat) in if 65 \<le> n \<and> n \<le> 90 then char_of (n + 32) else c)"

definition py_lower :: "string \<Rightarrow> string" where
  "py_lower s = map lower_char s"

text \<open>Python's \<^verbatim>\<open>a or b\<close> on strings: the empty string is falsy.\<close>

definition py_or :: "string \<Rightarrow> string \<Rightarrow> string" where
  "py_or a b = (if a = [] then b else a)"

section \<open>Retrieval: splitting a document into windows\<close>

text \<open>
  \<^verbatim>\<open>RAGService._split_text\<close> (rag_service.py). The \<^verbatim>\<open>while\<close> loop need not end for
  every argument (with \<^verbatim>\<open>chunk_overlap = chunk_size\<close> the window never moves), so the
  loop is a partial function: \<open>None\<close> is a loop that never returns.
\<close>

partial_function (option) split_text_loop ::
  "('a \<Rightarrow> bool) \<Rightarrow> 'a list \<Rightarrow> int \<Rightarrow> int \<Rightarrow> int \<Rightarrow> 'a list list \<Rightarrow> 'a list list option" where
  "split_text_loop sp text chunk_size chunk_overlap start chunks =
     (if start < int (length text) then
        (let end = min (start + chunk_size) (int (length text));
             chunk = strip_by sp (py_slice text start end);
             chunks' = (if chunk \<noteq> [] then chunks @ [chunk] else chunks)
         in if end \<ge> int (length text) then Some chunks'
            else split_text_loop sp text chunk_size chunk_overlap (end - chunk_overlap) chunks')
      else Some chunks)"

declare split_text_loop.simps [code]

definition split_text :: "('a \<Rightarrow> bool) \<Rightarrow> 'a list \<Rightarrow> int \<Rightarrow> int \<Rightarrow> 'a list list option" where
  "split_text sp text chunk_size chunk_overlap = split_text_loop sp text chunk_size chunk_overlap 0 []"

text \<open>The clamping of the two parameters in \<^verbatim>\<open>RAGService.ingest_document\<close>.\<close>

definition clamp_chunk_size :: "int \<Rightarrow> int" where
  "clamp_chunk_size chunk_size = max 200 (min chunk_size 4000)"

definition clamp_chunk_overlap :: "int \<Rightarrow> int \<Rightarrow> int" where
  "clamp_chunk_overlap chunk_size chunk_overlap = max 0 (min chunk_overlap (chunk_size - 1))"

text \<open>
  One pass of the loop body, as a function of the window start: the next start, or
  \<open>None\<close> when the loop leaves (the end of the text is reached).
\<close>

definition next_start :: "'a list \<Rightarrow> int \<Rightarrow> int \<Rightarrow> int \<Rightarrow> int option" where
  "next_start text chunk_size chunk_overlap start =
     (if start < int (length text) then
        (let end = min (start + chunk_size) (int (length text))
         in if end \<ge> int (length text) then None else Some (end - chunk_overlap))
      else None)"

section \<open>Quota gate\<close>

text \<open>
  \<^verbatim>\<open>LLMQuotaService\<close> (quota_service.py). The configuration values the gate reads are
  fields of a record; the counter store is a map from keys to integer counters, with the
  expiry last set on each key. The three kinds of key carry distinct prefixes in the
  source (\<^verbatim>\<open>llm:rate:minute:\<close>, \<^verbatim>\<open>llm:rate:day:req:\<close>, \<^verbatim>\<open>llm:rate:day:tok:\<close>), hence
  three constructors.
\<close>

record quota_config =
  LLM_RATE_LIMIT_ENABLE :: bool
  LLM_RATE_LIMIT_REQUESTS_PER_MINUTE :: int
  LLM_RATE_LIMIT_REQUESTS_PER_DAY :: int
  LLM_TOKEN_QUOTA_PER_DAY :: int

datatype quota_key =
    MinuteKey int string string int
  | DayRequestKey string int string string
  | DayTokenKey string int string string

record redis =
  counters :: "quota_key \<rightharpoonup> int"
  expiry :: "quota_key \<rightharpoonup> int"

text \<open>
  The three errors the gate raises. Each is a \<^verbatim>\<open>CustomException\<close> with
  \<^verbatim>\<open>status_code=429\<close> and \<^verbatim>\<open>custom_code=10005\<close>; the arguments are the provider, the
  model and the limit that the detail text quotes.
\<close>

datatype quota_error =
    RateLimitedPerMinute string string int
  | RateLimitedPerDay string string int
  | TokenQuotaExhausted string string int

text \<open>\<^verbatim>\<open>_to_int\<close> on what \<^verbatim>\<open>redis.get\<close> returns: a missing key reads as 0.\<close>

definition to_int :: "int option \<Rightarrow> int" where
  "to_int value = (case value of None \<Rightarrow> 0 | Some n \<Rightarrow> n)"

definition redis_get :: "redis \<Rightarrow> quota_key \<Rightarrow> int option" where
  "redis_get r k = counters r k"

definition redis_incr :: "redis \<Rightarrow> quota_key \<Rightarrow> int \<times> redis" where
  "redis_incr r k = (let v = to_int (counters r k) + 1 in (v, r\<lparr>counters := (counters r)(k \<mapsto> v)\<rparr>))"

definition redis_expire :: "redis \<Rightarrow> quota_key \<Rightarrow> int \<Rightarrow> redis" where
  "redis_expire r k seconds = r\<lparr>expiry := (expiry r)(k \<mapsto> seconds)\<rparr>"

definition minute_key :: "int \<Rightarrow> int \<Rightarrow> string \<Rightarrow> string \<Rightarrow> quota_key" where
  "minute_key minute_bucket owner_id provider model = MinuteKey owner_id provider model minute_bucket"

definition day_request_key :: "int \<Rightarrow> string \<Rightarrow> string \<Rightarrow> string \<Rightarrow> quota_key" where
  "day_request_key owner_id provider model day_str = DayRequestKey day_str owner_id provider model"

definition day_token_key :: "int \<Rightarrow> string \<Rightarrow> string \<Rightarrow> string \<Rightarrow> quota_key" where
  "day_token_key owner_id provider model day_str = DayTokenKey day_str owner_id provider model"

definition quota_provider :: "string \<Rightarrow> string" where
  "quota_provider provider = py_or (py_lower (py_strip (py_or provider ''unknown''))) ''unknown''"

definition quota_model :: "string \<Rightarrow> string" where
  "quota_model model = py_or (py_strip (py_or model ''unknown'')) ''unknown''"

text \<open>
  The last block of \<^verbatim>\<open>enforce_before_request\<close>: the token counter is read, never
  written.
\<close>

definition enforce_token_quota ::
  "quota_config \<Rightarrow> redis \<Rightarrow> string \<Rightarrow> string \<Rightarrow> quota_key \<Rightarrow> (quota_error + unit) \<times> redis option" where
  "enforce_token_quota cfg r provider model day_tok_key =
     (let token_limit = max 0 (LLM_TOKEN_QUOTA_PER_DAY cfg) in
      if token_limit > 0 then
        (let used_tokens = to_int (redis_get r day_tok_key) in
         if used_tokens \<ge> token_limit
         then (Inl (TokenQuotaExhausted provider model token_limit), Some r)
         else (Inr (), Some r))
      else (Inr (), Some r))"

text \<open>The middle block: the day counter of requests, touched only under a positive limit.\<close>

definition enforce_day_requests ::
  "quota_config \<Rightarrow> redis \<Rightarrow> string \<Rightarrow> string \<Rightarrow> quota_key \<Rightarrow> quota_key \<Rightarrow> (quota_error + unit) \<times> redis option" where
  "enforce_day_requests cfg r provider model day_req_key day_tok_key =
     (let day_limit = max 0 (LLM_RATE_LIMIT_REQUESTS_PER_DAY cfg) in
      if day_limit > 0 then
        (let (day_count, r1) = redis_incr r day_req_key;
             r2 = (if day_count = 1 then redis_expire r1 day_req_key 172800 else r1)
         in if day_count > day_limit
            then (Inl (RateLimitedPerDay provider model day_limit), Some r2)
            else enforce_token_quota cfg r2 provider model day_tok_key)
      else enforce_token_quota cfg r provider model day_tok_key)"

text \<open>
  \<^verbatim>\<open>enforce_before_request\<close>. The pool is \<open>None\<close> when \<^verbatim>\<open>_get_redis_or_none\<close> could
  not reach the store; the clock is read once per key (\<open>minute_bucket\<close>, \<open>day_str\<close>).
  The store is returned with the outcome: an increment made before a raise stays.
\<close>

definition enforce_before_request ::
  "quota_config \<Rightarrow> redis option \<Rightarrow> int \<Rightarrow> string \<Rightarrow> int \<Rightarrow> string \<Rightarrow> string
     \<Rightarrow> (quota_error + unit) \<times> redis option" where
  "enforce_before_request cfg pool minute_bucket day_str owner_id provider0 model0 =
     (if \<not> LLM_RATE_LIMIT_ENABLE cfg then (Inr (), pool)
      else case pool of
        None \<Rightarrow> (Inr (), None)
      | Some r \<Rightarrow>
          (let provider = quota_provider provider0;
               model = quota_model model0;
               minute_k = minute_key minute_bucket owner_id provider model;
               day_req_key = day_request_key owner_id provider model day_str;
               day_tok_key = day_token_key owner_id provider model day_str;
               minute_limit = max 1 (LLM_RATE_LIMIT_REQUESTS_PER_MINUTE cfg);
               (minute_count, r1) = redis_incr r minute_k;
               r2 = (if minute_count = 1 then redis_expire r1 minute_k 70 else r1)
           in if minute_count > minute_limit
              then (Inl (RateLimitedPerMinute provider model minute_limit), Some r2)
              else enforce_day_requests cfg r2 provider model day_req_key day_tok_key))"

section \<open>Memory compressor\<close>

text \<open>
  \<^verbatim>\<open>ConversationMemoryService\<close> (memory_service.py). Of the conversation only the three
  keys of \<^verbatim>\<open>extra_config\<close> that hold the memory state are modelled; a key that is absent
  or null is \<open>None\<close>. The history rows are a list over any row type.
\<close>

record memory_config =
  LLM_MEMORY_ENABLE :: bool
  LLM_MEMORY_SUMMARY_TRIGGER_MESSAGES :: int
  LLM_MEMORY_KEEP_RECENT_MESSAGES :: int
  LLM_MEMORY_SUMMARY_MAX_CHARS :: int

record conversation_memory =
  memory_summary :: "string option"
  memory_message_count :: "int option"
  memory_updated_at :: "int option"

definition get_memory_state :: "conversation_memory \<Rightarrow> string option \<times> int" where
  "get_memory_state conversation =
     (let text = py_strip (case memory_summary conversation of None \<Rightarrow> [] | Some s \<Rightarrow> s);
          summary_text = (if text = [] then None else Some text);
          summarized_count = (case memory_message_count conversation of None \<Rightarrow> 0 | Some n \<Rightarrow> n)
      in (summary_text, max 0 summarized_count))"

text \<open>
  \<^verbatim>\<open>maybe_refresh_summary\<close>. The one completion call is the parameter \<open>chat_completion\<close>: it
  is given what \<^verbatim>\<open>_build_summary_prompt\<close> is given (the existing summary and the rows to
  fold in) and returns the text of the reply, or the exception of the call. \<open>now\<close> is
  the clock. The result is the pair the source returns, with the conversation as the
  call leaves it (\<^verbatim>\<open>db.flush()\<close> is taken to succeed).
\<close>

definition maybe_refresh_summary ::
  "memory_config \<Rightarrow> (string option \<Rightarrow> 'row list \<Rightarrow> 'e + string) \<Rightarrow> int
     \<Rightarrow> conversation_memory \<Rightarrow> 'row list
     \<Rightarrow> (string option \<times> int) \<times> conversation_memory" where
  "maybe_refresh_summary cfg chat_completion now conversation history_rows =
     (let (summary_text, summarized_count0) = get_memory_state conversation in
      if \<not> LLM_MEMORY_ENABLE cfg then ((summary_text, summarized_count0), conversation)
      else if history_rows = [] then ((summary_text, summarized_count0), conversation)
      else
        (let history_size = int (length history_rows);
             summarized_count = max 0 (min summarized_count0 history_size);
             trigger = max 6 (LLM_MEMORY_SUMMARY_TRIGGER_MESSAGES cfg);
             keep_recent = max 4 (min (LLM_MEMORY_KEEP_RECENT_MESSAGES cfg) 100);
             cutoff = max 0 (history_size - keep_recent);
             unsummarized = max 0 (cutoff - summarized_count)
         in if unsummarized < trigger then ((summary_text, summarized_count), conversation)
            else
              (let rows_to_summarize = py_slice history_rows summarized_count cutoff in
               if rows_to_summarize = [] then ((summary_text, summarized_count), conversation)
               else
                 (case chat_completion summary_text rows_to_summarize of
                    Inl exc \<Rightarrow> ((summary_text, summarized_count), conversation)
                  | Inr reply \<Rightarrow>
                      (let content = py_strip reply in
                       if content = [] then ((summary_text, summarized_count), conversation)
                       else
                         (let max_chars = max 500 (LLM_MEMORY_SUMMARY_MAX_CHARS cfg);
                              content' = (if int (length content) > max_chars
                                          then py_slice content 0 max_chars else content)
                          in ((Some content', cutoff),
                              conversation\<lparr>memory_summary := Some content',
                                            memory_message_count := Some cutoff,
                                            memory_updated_at := Some now\<rparr>)))))))"

definition trim_history_rows :: "'row list \<Rightarrow> int \<Rightarrow> 'row list" where
  "trim_history_rows history_rows summarized_count =
     (if summarized_count \<le> 0 then history_rows
      else (let index = max 0 (min summarized_count (int (length history_rows)))
            in drop (nat index) history_rows))"

section \<open>Retrieval: ranking stored chunks\<close>

text \<open>
  \<^verbatim>\<open>RAGService._cosine_similarity\<close> and \<^verbatim>\<open>RAGService.retrieve_context\<close>
  (rag_service.py). Python's floats are modelled as real numbers: sums, products,
  square roots and the quotient are exact.
\<close>

definition cosine_similarity :: "real list \<Rightarrow> real list \<Rightarrow> real" where
  "cosine_similarity vec1 vec2 =
     (if vec1 = [] \<or> vec2 = [] then 0
      else
        (let size = min (length vec1) (length vec2) in
         if size \<le> 0 then 0
         else
           (let a = take size vec1;
                b = take size vec2;
                dot = sum_list (map (\<lambda>(x, y). x * y) (zip a b));
                norm_a = sqrt (sum_list (map (\<lambda>x. x * x) a));
                norm_b = sqrt (sum_list (map (\<lambda>y. y * y) b))
            in if norm_a = 0 \<or> norm_b = 0 then 0 else dot / (norm_a * norm_b))))"

text \<open>A row of the chunk table, and a passage of the answer.\<close>

record rag_chunk =
  chunk_doc_id :: string
  chunk_index :: int
  chunk_content :: string
  chunk_embedding :: "real list option"


text \<open>
  The scoring loop, the sort (\<^verbatim>\<open>scored.sort(key=..., reverse=True)\<close>, which is stable)
  and the cut \<^verbatim>\<open>scored[: max(1, min(top_k, 20))]\<close>.
\<close>

definition chunk_vector :: "rag_chunk \<Rightarrow> real list" where
  "chunk_vector chunk = (case chunk_embedding chunk of None \<Rightarrow> [] | Some e \<Rightarrow> e)"

definition score_chunks :: "real list \<Rightarrow> rag_chunk list \<Rightarrow> (real \<times> rag_chunk) list" where
  "score_chunks query_embedding chunks =
     filter (\<lambda>(score, chunk). \<not> score \<le> 0)
       (map (\<lambda>chunk. (cosine_similarity query_embedding (chunk_vector chunk), chunk)) chunks)"




text \<open>
  The cosine of the spec, for comparison: both vectors cut to the shorter length \<open>n\<close>,
  the inner product over the product of the Euclidean norms.
\<close>

definition spec_cosine :: "real list \<Rightarrow> real list \<Rightarrow> real" where
  "spec_cosine v w =
     (let n = min (length v) (length w)
      in (\<Sum>i<n. v ! i * w ! i) / (sqrt (\<Sum>i<n. (v ! i)\<^sup>2) * sqrt (\<Sum>i<n. (w ! i)\<^sup>2)))"

section \<open>Exceptions, JSON values and tool calls\<close>

text \<open>
  An exception is either the repository's \<^verbatim>\<open>CustomException\<close>, with its detail text and
  its \<^verbatim>\<open>custom_code\<close>, or any other Python exception, with its class name and its
  message.
\<close>

datatype exn =
    CustomException (exc_detail: string) (exc_code: int)
  | PyException (exc_class: string) (exc_message: string)

datatype json =
    JNull
  | JBool bool
  | JNum real
  | JString string
  | JArray "json list"
  | JObject "(string \<times> json) list"

text \<open>
  A tool call as the provider returns it: a dictionary with the keys \<^verbatim>\<open>id\<close> and
  \<^verbatim>\<open>function\<close>, the latter with \<^verbatim>\<open>name\<close> and \<^verbatim>\<open>arguments\<close> (the raw argument text). A
  key that is absent or null is \<open>None\<close>.
\<close>

record tool_call =
  tc_id :: "string option"
  tc_name :: "string option"
  tc_arguments :: "string option"

record tool_result =
  tr_ok :: bool
  tr_tool_call_id :: string
  tr_tool_name :: string
  tr_arguments :: json
  tr_content :: string

text \<open>
  The detail texts of the source, as UTF-8 bytes. In the order of the definitions:
  the six markers of \<^verbatim>\<open>_is_fallback_candidate_error\<close> (request failed, stream request
  failed, empty reply, API key not configured, base_url not configured, unsupported
  provider); the texts of the tool registry (a tool call without a name; the prefix and
  the suffix of "tool NAME is not registered"); the reply synthesized at the step limit;
  and the detail of the error raised when no provider is left.
\<close>

definition marker_request_failed :: string where
  "marker_request_failed = map char_of
      ([230, 168, 161, 229, 158, 139, 232, 175, 183, 230, 177, 130, 229, 164, 177,
       232, 180, 165] :: nat list)"

definition marker_stream_failed :: string where
  "marker_stream_failed = map char_of
      ([230, 168, 161, 229, 158, 139, 230, 181, 129, 229, 188, 143, 232, 175, 183,
       230, 177, 130, 229, 164, 177, 232, 180, 165] :: nat list)"

definition marker_empty_reply :: string where
  "marker_empty_reply = map char_of
      ([230, 168, 161, 229, 158, 139, 232, 191, 148, 229, 155, 158, 228, 184, 186,
       231, 169, 186] :: nat list)"

definition marker_api_key :: string where
  "marker_api_key = map char_of
      ([65, 80, 73, 32, 107, 101, 121, 32, 230, 156, 170, 233, 133, 141, 231, 189,
       174] :: nat list)"

definition marker_base_url :: string where
  "marker_base_url = map char_of
      ([98, 97, 115, 101, 95, 117, 114, 108, 32, 230, 156, 170, 233, 133, 141, 231,
       189, 174] :: nat list)"

definition marker_unsupported :: string where
  "marker_unsupported = map char_of
      ([228, 184, 141, 230, 148, 175, 230, 140, 129, 231, 154, 132, 230, 168, 161,
       229, 158, 139, 229, 142, 130, 229, 149, 134] :: nat list)"

definition txt_tool_missing_name :: string where
  "txt_tool_missing_name = map char_of
      ([229, 183, 165, 229, 133, 183, 232, 176, 131, 231, 148, 168, 231, 188, 186,
       229, 176, 145, 32, 110, 97, 109, 101] :: nat list)"

definition txt_tool_prefix :: string where
  "txt_tool_prefix = map char_of
      ([229, 183, 165, 229, 133, 183, 32] :: nat list)"

definition txt_not_registered :: string where
  "txt_not_registered = map char_of
      ([32, 230, 156, 170, 230, 179, 168, 229, 134, 140] :: nat list)"

definition txt_step_limit :: string where
  "txt_step_limit = map char_of
      ([229, 183, 165, 229, 133, 183, 232, 176, 131, 231, 148, 168, 232, 190, 190,
       229, 136, 176, 228, 184, 138, 233, 153, 144, 239, 188, 140, 232, 175, 183,
       231, 188, 169, 229, 176, 143, 233, 151, 174, 233, 162, 152, 232, 140, 131,
       229, 155, 180, 229, 144, 142, 233, 135, 141, 232, 175, 149, 227, 128, 130] :: nat list)"

definition txt_no_provider :: string where
  "txt_no_provider = map char_of
      ([230, 168, 161, 229, 158, 139, 232, 176, 131, 231, 148, 168, 229, 164, 177,
       232, 180, 165, 239, 188, 140, 228, 184, 148, 230, 151, 160, 229, 143, 175,
       231, 148, 168, 229, 155, 158, 233, 128, 128, 229, 142, 130, 229, 149, 134] :: nat list)"

text \<open>
  The texts of the remote tool adapter: the session is missing; the prefix of "MCP tool
  NAME is not registered"; the prefix and the suffixes of "MCP server ID is disabled" and
  "MCP server ID has no endpoint"; the parts of "MCP HTTP call failed(STATUS)"; and the
  prefix of "unsupported MCP transport".
\<close>

definition txt_mcp_needs_db :: string where
  "txt_mcp_needs_db = map char_of
      ([77, 67, 80, 32, 230, 137, 167, 232, 161, 140, 233, 156, 128, 232, 166, 129,
       230, 149, 176, 230, 141, 174, 229, 186, 147, 228, 188, 154, 232, 175, 157] :: nat list)"

definition txt_mcp_tool_prefix :: string where
  "txt_mcp_tool_prefix = map char_of
      ([77, 67, 80, 32, 229, 183, 165, 229, 133, 183, 32] :: nat list)"

definition txt_mcp_server_prefix :: string where
  "txt_mcp_server_prefix = map char_of
      ([77, 67, 80, 32, 230, 156, 141, 229, 138, 161, 229, 153, 168, 32] :: nat list)"

definition txt_disabled :: string where
  "txt_disabled = map char_of
      ([32, 229, 183, 178, 231, 166, 129, 231, 148, 168] :: nat list)"

definition txt_endpoint_missing :: string where
  "txt_endpoint_missing = map char_of
      ([32, 101, 110, 100, 112, 111, 105, 110, 116, 32, 230, 156, 170, 233, 133, 141,
       231, 189, 174] :: nat list)"

definition txt_mcp_http_failed :: string where
  "txt_mcp_http_failed = map char_of
      ([77, 67, 80, 32, 72, 84, 84, 80, 32, 232, 176, 131, 231, 148, 168, 229, 164,
       177, 232, 180, 165, 40] :: nat list)"

definition txt_mcp_transport :: string where
  "txt_mcp_transport = map char_of
      ([230, 154, 130, 228, 184, 141, 230, 148, 175, 230, 140, 129, 231, 154, 132,
       32, 77, 67, 80, 32, 116, 114, 97, 110, 115, 112, 111, 114, 116, 58, 32] :: nat list)"

text \<open>Python's \<^verbatim>\<open>str(n)\<close> on an integer: the decimal digits, with a sign.\<close>

fun str_nat :: "nat \<Rightarrow> string" where
  "str_nat n = (if n < 10 then [char_of (48 + n)] else str_nat (n div 10) @ [char_of (48 + n mod 10)])"

definition str_int :: "int \<Rightarrow> string" where
  "str_int i = (if i < 0 then CHR ''-'' # str_nat (nat (- i)) else str_nat (nat i))"

text \<open>Python's \<^verbatim>\<open>x or d\<close> on a string that may be \<^verbatim>\<open>None\<close>.\<close>

definition opt_or :: "string option \<Rightarrow> string \<Rightarrow> string" where
  "opt_or x d = (case x of None \<Rightarrow> d | Some s \<Rightarrow> if s = [] then d else s)"

section \<open>Messages, completions and the environment\<close>

datatype role = RSystem | RUser | RAssistant | RTool

text \<open>
  A message of the turn context. The key \<^verbatim>\<open>tool_calls\<close> is present on an assistant
  message only when the list is not empty, so the empty list stands for the missing key.
\<close>

record message =
  msg_role :: role
  msg_content :: string
  msg_tool_call_id :: "string option"
  msg_tool_calls :: "tool_call list"

text \<open>A usage dictionary, in insertion order.\<close>

type_synonym usage = "(string \<times> json) list"

text \<open>
  What \<^verbatim>\<open>UnifiedLLMClient.chat_completion\<close> returns, as far as the engine reads it:
  \<open>cmp_content\<close> is \<^verbatim>\<open>message.get("content")\<close> and \<open>cmp_tool_calls\<close> is
  \<^verbatim>\<open>message.get("tool_calls") or []\<close>.
\<close>

record completion =
  cmp_provider :: string
  cmp_model :: string
  cmp_content :: json
  cmp_tool_calls :: "tool_call list"
  cmp_usage :: usage

text \<open>An item of \<^verbatim>\<open>generated_records\<close>.\<close>

record gen_record =
  gr_role :: role
  gr_content :: "string option"
  gr_tool_name :: "string option"
  gr_tool_call_id :: "string option"
  gr_tool_calls :: "tool_call list option"
  gr_provider :: "string option"
  gr_model :: "string option"
  gr_token_usage :: "usage option"
  gr_extra :: "(string \<times> json) list"

text \<open>A row of the table of remote tool servers, and the answer of an HTTP POST.\<close>

record mcp_server =
  srv_server_id :: string
  srv_transport :: "string option"
  srv_endpoint :: "string option"
  srv_timeout_seconds :: "int option"
  srv_enabled :: bool

record http_response =
  resp_status_code :: int
  resp_text :: string
  resp_json :: "exn + json"

text \<open>
  Everything outside the engine is a parameter. The outer world has a state of type
  \<open>'w\<close>, which every call that reaches outside takes and returns: two calls with the
  same arguments need not answer alike. A call that raises returns \<open>Inl\<close>.
  \<^item> \<open>json_loads\<close> is \<^verbatim>\<open>json.loads\<close> on a string (\<open>None\<close>: \<^verbatim>\<open>JSONDecodeError\<close>),
    \<open>json_dumps\<close> is \<^verbatim>\<open>json.dumps\<close>, \<open>str_exc\<close> is \<^verbatim>\<open>str(exc)\<close>, and \<open>uuid4_hex\<close>
    is \<^verbatim>\<open>uuid.uuid4().hex\<close>;
  \<^item> \<open>tools\<close> is the registry's table, from the name to the executor; an executor
    that returns a value \<^verbatim>\<open>json.dumps\<close> cannot write counts as one that raises, since
    the source serialises the value inside the same \<^verbatim>\<open>try\<close>;
  \<^item> \<open>llm_chat_completion\<close> is \<^verbatim>\<open>UnifiedLLMClient.chat_completion\<close>, called with the
    messages, the provider and the model;
  \<^item> \<open>find_server_by_tool_name\<close> is the adapter's query for the server of a tool, and
    \<open>http_post\<close> the POST to a server's endpoint, with its payload and timeout.
\<close>

record 'w env =
  json_loads :: "string \<Rightarrow> json option"
  json_dumps :: "json \<Rightarrow> string"
  str_exc :: "exn \<Rightarrow> string"
  uuid4_hex :: "'w \<Rightarrow> string \<times> 'w"
  tools :: "string \<rightharpoonup> ('w \<Rightarrow> json \<Rightarrow> (exn + json) \<times> 'w)"
  llm_chat_completion :: "'w \<Rightarrow> message list \<Rightarrow> string \<Rightarrow> string \<Rightarrow> (exn + completion) \<times> 'w"
  find_server_by_tool_name :: "'w \<Rightarrow> int option \<Rightarrow> string \<Rightarrow> (exn + mcp_server option) \<times> 'w"
  http_post :: "'w \<Rightarrow> string \<Rightarrow> json \<Rightarrow> int \<Rightarrow> (exn + http_response) \<times> 'w"

section \<open>Tool registry and remote tool adapter\<close>

text \<open>
  The identifier of a call: \<^verbatim>\<open>tool_call.get("id") or f"PREFIX{uuid.uuid4().hex}"\<close>; the
  generator is consulted only when the call carries no identifier.
\<close>

definition call_id_of :: "'w env \<Rightarrow> 'w \<Rightarrow> string \<Rightarrow> tool_call \<Rightarrow> string \<times> 'w" where
  "call_id_of env w id_prefix tool_call =
     (case tc_id tool_call of
        None \<Rightarrow> (let (h, w') = uuid4_hex env w in (id_prefix @ h, w'))
      | Some i \<Rightarrow> if i = [] then (let (h, w') = uuid4_hex env w in (id_prefix @ h, w')) else (i, w))"

text \<open>The parse of the raw argument text, shared by both executors.\<close>

definition parse_arguments :: "'w env \<Rightarrow> string \<Rightarrow> json" where
  "parse_arguments env arguments_text =
     (case json_loads env arguments_text of
        None \<Rightarrow> JObject [(''raw'', JString arguments_text)]
      | Some arguments \<Rightarrow> arguments)"

text \<open>\<^verbatim>\<open>ToolRegistry.execute_tool_call\<close> (tool_registry.py).\<close>

definition execute_tool_call :: "'w env \<Rightarrow> 'w \<Rightarrow> tool_call \<Rightarrow> (exn + tool_result) \<times> 'w" where
  "execute_tool_call env w tool_call =
     (let (call_id, w1) = call_id_of env w ''toolcall_'' tool_call;
          arguments_text = opt_or (tc_arguments tool_call) ''{}''
      in case tc_name tool_call of
           None \<Rightarrow> (Inl (CustomException txt_tool_missing_name 10005), w1)
         | Some tool_name \<Rightarrow>
             if tool_name = [] then (Inl (CustomException txt_tool_missing_name 10005), w1)
             else
               (case tools env tool_name of
                  None \<Rightarrow>
                    (Inl (CustomException (txt_tool_prefix @ tool_name @ txt_not_registered) 10002), w1)
                | Some executor \<Rightarrow>
                    (let arguments = parse_arguments env arguments_text;
                         (outcome, w2) = executor w1 arguments;
                         (ok, content) =
                           (case outcome of
                              Inr result \<Rightarrow>
                                (True, json_dumps env (JObject [(''ok'', JBool True), (''result'', result)]))
                            | Inl exc \<Rightarrow>
                                (False, json_dumps env
                                   (JObject [(''ok'', JBool False), (''error'', JString (str_exc env exc))])))
                     in (Inr \<lparr>tr_ok = ok, tr_tool_call_id = call_id, tr_tool_name = tool_name,
                              tr_arguments = arguments, tr_content = content\<rparr>, w2))))"

text \<open>\<^verbatim>\<open>MCPService._tool_call_result\<close> and \<^verbatim>\<open>MCPService.execute_tool_call\<close> (mcp_service.py).\<close>

definition tool_call_result :: "'w env \<Rightarrow> string \<Rightarrow> string \<Rightarrow> json \<Rightarrow> json \<Rightarrow> bool \<Rightarrow> tool_result" where
  "tool_call_result env call_id tool_name arguments result ok =
     \<lparr>tr_ok = ok, tr_tool_call_id = call_id, tr_tool_name = tool_name, tr_arguments = arguments,
      tr_content = json_dumps env (JObject [(''ok'', JBool ok), (''result'', result)])\<rparr>"

definition mcp_http_call ::
  "'w env \<Rightarrow> 'w \<Rightarrow> mcp_server \<Rightarrow> string \<Rightarrow> string \<Rightarrow> json \<Rightarrow> (exn + tool_result) \<times> 'w" where
  "mcp_http_call env w server_row call_id tool_name arguments =
     (let endpoint = py_strip (opt_or (srv_endpoint server_row) []) in
      if endpoint = [] then
        (Inl (CustomException (txt_mcp_server_prefix @ srv_server_id server_row @ txt_endpoint_missing) 10005), w)
      else
        (let timeout = max 1 (case srv_timeout_seconds server_row of
                                None \<Rightarrow> 30 | Some t \<Rightarrow> if t = 0 then 30 else t);
             payload = JObject [(''tool_name'', JString tool_name), (''arguments'', arguments),
                                (''server_id'', JString (srv_server_id server_row))]
         in case http_post env w endpoint payload timeout of
              (Inl exc, w1) \<Rightarrow>
                (Inr (tool_call_result env call_id tool_name arguments
                        (JObject [(''error'', JString (str_exc env exc))]) False), w1)
            | (Inr resp, w1) \<Rightarrow>
                if resp_status_code resp \<ge> 400 then
                  (Inr (tool_call_result env call_id tool_name arguments
                          (JObject [(''error'', JString (txt_mcp_http_failed
                                       @ str_int (resp_status_code resp) @ '')'')),
                                    (''body'', JString (py_slice (resp_text resp) 0 800))]) False), w1)
                else
                  (case resp_json resp of
                     Inl exc \<Rightarrow>
                       (Inr (tool_call_result env call_id tool_name arguments
                               (JObject [(''error'', JString (str_exc env exc))]) False), w1)
                   | Inr result \<Rightarrow>
                       (Inr (tool_call_result env call_id tool_name arguments result True), w1))))"

definition mcp_execute_tool_call ::
  "'w env \<Rightarrow> 'w \<Rightarrow> bool \<Rightarrow> int option \<Rightarrow> tool_call \<Rightarrow> (exn + tool_result) \<times> 'w" where
  "mcp_execute_tool_call env w db owner_id tool_call =
     (if \<not> db then (Inl (CustomException txt_mcp_needs_db 10005), w)
      else
        (let (call_id, w1) = call_id_of env w ''mcp_toolcall_'' tool_call;
             tool_name = py_strip (opt_or (tc_name tool_call) [])
         in if tool_name = [] then (Inl (CustomException txt_tool_missing_name 10005), w1)
            else
              (let arguments_text = opt_or (tc_arguments tool_call) ''{}'';
                   arguments = parse_arguments env arguments_text
               in case find_server_by_tool_name env w1 owner_id tool_name of
                    (Inl exc, w2) \<Rightarrow> (Inl exc, w2)
                  | (Inr None, w2) \<Rightarrow>
                      (Inl (CustomException (txt_mcp_tool_prefix @ tool_name @ txt_not_registered) 10002), w2)
                  | (Inr (Some server_row), w2) \<Rightarrow>
                      if \<not> srv_enabled server_row then
                        (Inl (CustomException (txt_mcp_server_prefix @ srv_server_id server_row
                                                 @ txt_disabled) 10005), w2)
                      else
                        (let transport = py_lower (opt_or (srv_transport server_row) ''http'') in
                         if transport = ''mock'' then
                           (Inr (tool_call_result env call_id tool_name arguments
                                   (JObject [(''server_id'', JString (srv_server_id server_row)),
                                             (''tool_name'', JString tool_name),
                                             (''arguments'', arguments),
                                             (''transport'', JString ''mock'')]) True), w2)
                         else if transport = ''http'' then
                           mcp_http_call env w2 server_row call_id tool_name arguments
                         else
                           (Inl (CustomException (txt_mcp_transport @ transport) 10005), w2)))))"

section \<open>The tool loop\<close>

text \<open>
  The state of the system around a run: the outer world, and the record of the calls of
  \<^verbatim>\<open>chat_completion\<close> made so far (the context passed to each, oldest first), kept so
  that what is sent to the model, and how often, can be stated.
\<close>

record 'w sys =
  world :: 'w
  llm_log :: "message list list"

definition call_chat_completion ::
  "'w env \<Rightarrow> 'w sys \<Rightarrow> message list \<Rightarrow> string \<Rightarrow> string \<Rightarrow> (exn + completion) \<times> 'w sys" where
  "call_chat_completion env s messages provider model =
     (let (outcome, w') = llm_chat_completion env (world s) messages provider model
      in (outcome, s\<lparr>world := w', llm_log := llm_log s @ [messages]\<rparr>))"

text \<open>\<^verbatim>\<open>ChatService._to_text\<close> on the content of a reply.\<close>

definition to_text :: "'w env \<Rightarrow> json \<Rightarrow> string" where
  "to_text env v = (case v of JNull \<Rightarrow> [] | JString s \<Rightarrow> s | _ \<Rightarrow> json_dumps env v)"

text \<open>
  \<^verbatim>\<open>ChatService._merge_usage\<close>. A number is what \<^verbatim>\<open>isinstance(value, (int, float))\<close>
  accepts, which includes the booleans.
\<close>

definition is_number :: "json \<Rightarrow> bool" where
  "is_number v = (case v of JNum x \<Rightarrow> True | JBool b \<Rightarrow> True | _ \<Rightarrow> False)"

definition number_of :: "json \<Rightarrow> real" where
  "number_of v = (case v of JNum x \<Rightarrow> x | JBool b \<Rightarrow> (if b then 1 else 0) | _ \<Rightarrow> 0)"

fun dict_set :: "(string \<times> json) list \<Rightarrow> string \<Rightarrow> json \<Rightarrow> (string \<times> json) list" where
  "dict_set [] key v = [(key, v)]"
| "dict_set ((k, x) # rest) key v = (if k = key then (k, v) # rest else (k, x) # dict_set rest key v)"

definition merge_usage_item :: "usage \<Rightarrow> string \<times> json \<Rightarrow> usage" where
  "merge_usage_item merged item =
     (case item of (key, v) \<Rightarrow>
        (case map_of merged key of
           Some old \<Rightarrow>
             if is_number v \<and> is_number old
             then dict_set merged key (JNum (number_of old + number_of v))
             else merged
         | None \<Rightarrow> dict_set merged key v))"

definition merge_usage :: "usage \<Rightarrow> usage \<Rightarrow> usage" where
  "merge_usage current new_usage = foldl merge_usage_item current new_usage"

text \<open>
  The local variables of \<^verbatim>\<open>ChatService._run_completion_with_tools\<close>. The source returns
  all of them but \<open>working_messages\<close> and \<open>tool_call_pending\<close>.
\<close>

record loop_state =
  working_messages :: "message list"
  generated_records :: "gen_record list"
  tool_runs :: "tool_result list"
  usage_total :: usage
  assistant_text :: "string option"
  actual_provider :: string
  actual_model :: string
  tool_call_pending :: bool

text \<open>The first half of a pass: the bookkeeping after a completion has come back.\<close>

definition after_completion :: "'w env \<Rightarrow> loop_state \<Rightarrow> completion \<Rightarrow> loop_state" where
  "after_completion env st completion =
     (let tool_calls = cmp_tool_calls completion;
          text = to_text env (cmp_content completion)
      in st\<lparr>actual_provider := cmp_provider completion,
            actual_model := cmp_model completion,
            usage_total := merge_usage (usage_total st) (cmp_usage completion),
            assistant_text := Some text,
            working_messages := working_messages st @
              [\<lparr>msg_role = RAssistant, msg_content = text, msg_tool_call_id = None,
                msg_tool_calls = tool_calls\<rparr>],
            generated_records := generated_records st @
              [\<lparr>gr_role = RAssistant, gr_content = Some text, gr_tool_name = None,
                gr_tool_call_id = None,
                gr_tool_calls = (if tool_calls \<noteq> [] then Some tool_calls else None),
                gr_provider = Some (cmp_provider completion),
                gr_model = Some (cmp_model completion),
                gr_token_usage = Some (cmp_usage completion), gr_extra = []\<rparr>]\<rparr>)"

text \<open>
  One tool call: the registry first, and the remote adapter when the registry raises a
  \<^verbatim>\<open>CustomException\<close> with the code 10002; any other exception leaves the loop.
\<close>

definition run_tool_call ::
  "'w env \<Rightarrow> 'w \<Rightarrow> bool \<Rightarrow> int option \<Rightarrow> tool_call \<Rightarrow> (exn + tool_result) \<times> 'w" where
  "run_tool_call env w db owner_id tool_call =
     (case execute_tool_call env w tool_call of
        (Inr tool_result, w1) \<Rightarrow> (Inr tool_result, w1)
      | (Inl exc, w1) \<Rightarrow>
          (case exc of
             CustomException detail code \<Rightarrow>
               if code \<noteq> 10002 then (Inl exc, w1)
               else mcp_execute_tool_call env w1 db owner_id tool_call
           | PyException cls msg \<Rightarrow> (Inl exc, w1)))"

definition tool_message :: "tool_result \<Rightarrow> message" where
  "tool_message tool_result =
     \<lparr>msg_role = RTool, msg_content = tr_content tool_result,
      msg_tool_call_id = Some (tr_tool_call_id tool_result), msg_tool_calls = []\<rparr>"

definition tool_record :: "tool_result \<Rightarrow> gen_record" where
  "tool_record tool_result =
     \<lparr>gr_role = RTool, gr_content = Some (tr_content tool_result),
      gr_tool_name = Some (tr_tool_name tool_result),
      gr_tool_call_id = Some (tr_tool_call_id tool_result),
      gr_tool_calls = None, gr_provider = None, gr_model = None, gr_token_usage = None,
      gr_extra = [(''ok'', JBool (tr_ok tool_result)), (''arguments'', tr_arguments tool_result)]\<rparr>"

definition append_tool_result :: "loop_state \<Rightarrow> tool_result \<Rightarrow> loop_state" where
  "append_tool_result st tool_result =
     st\<lparr>tool_runs := tool_runs st @ [tool_result],
        working_messages := working_messages st @ [tool_message tool_result],
        generated_records := generated_records st @ [tool_record tool_result]\<rparr>"

text \<open>The inner loop \<^verbatim>\<open>for tool_call in tool_calls\<close>, in the order of the list.\<close>

fun exec_tool_calls ::
  "'w env \<Rightarrow> bool \<Rightarrow> int option \<Rightarrow> tool_call list \<Rightarrow> loop_state \<Rightarrow> 'w \<Rightarrow> (exn + loop_state) \<times> 'w" where
  "exec_tool_calls env db owner_id [] st w = (Inr st, w)"
| "exec_tool_calls env db owner_id (tool_call # rest) st w =
     (case run_tool_call env w db owner_id tool_call of
        (Inl exc, w1) \<Rightarrow> (Inl exc, w1)
      | (Inr tool_result, w1) \<Rightarrow>
          exec_tool_calls env db owner_id rest (append_tool_result st tool_result) w1)"

text \<open>
  The outer loop \<^verbatim>\<open>for _ in range(max(1, max_tool_steps))\<close>, with the number of passes
  left as the first argument after the fixed ones. The temperature and the tool
  definitions do not change during a run and are left out of the call.
\<close>

fun tool_loop ::
  "'w env \<Rightarrow> bool \<Rightarrow> int option \<Rightarrow> nat \<Rightarrow> loop_state \<Rightarrow> 'w sys \<Rightarrow> (exn + loop_state) \<times> 'w sys" where
  "tool_loop env db owner_id 0 st s = (Inr st, s)"
| "tool_loop env db owner_id (Suc n) st s =
     (case call_chat_completion env s (working_messages st) (actual_provider st) (actual_model st) of
        (Inl exc, s1) \<Rightarrow> (Inl exc, s1)
      | (Inr completion, s1) \<Rightarrow>
          (let st1 = after_completion env st completion in
           if cmp_tool_calls completion = [] then (Inr (st1\<lparr>tool_call_pending := False\<rparr>), s1)
           else
             (case exec_tool_calls env db owner_id (cmp_tool_calls completion)
                     (st1\<lparr>tool_call_pending := True\<rparr>) (world s1) of
                (Inl exc, w2) \<Rightarrow> (Inl exc, s1\<lparr>world := w2\<rparr>)
              | (Inr st2, w2) \<Rightarrow> tool_loop env db owner_id n st2 (s1\<lparr>world := w2\<rparr>))))"

definition step_limit_record :: "loop_state \<Rightarrow> gen_record" where
  "step_limit_record st =
     \<lparr>gr_role = RAssistant, gr_content = Some txt_step_limit, gr_tool_name = None,
      gr_tool_call_id = None, gr_tool_calls = None,
      gr_provider = Some (actual_provider st), gr_model = Some (actual_model st),
      gr_token_usage = None, gr_extra = [(''reason'', JString ''max_tool_steps_exceeded'')]\<rparr>"

definition run_completion_with_tools ::
  "'w env \<Rightarrow> bool \<Rightarrow> int option \<Rightarrow> message list \<Rightarrow> string \<Rightarrow> string \<Rightarrow> int \<Rightarrow> 'w sys
     \<Rightarrow> (exn + loop_state) \<times> 'w sys" where
  "run_completion_with_tools env db owner_id llm_messages provider model max_tool_steps s =
     (let st0 = \<lparr>working_messages = llm_messages, generated_records = [], tool_runs = [],
                 usage_total = [], assistant_text = None, actual_provider = provider,
                 actual_model = model, tool_call_pending = False\<rparr>
      in case tool_loop env db owner_id (nat (max 1 max_tool_steps)) st0 s of
           (Inl exc, s') \<Rightarrow> (Inl exc, s')
         | (Inr st, s') \<Rightarrow>
             if tool_call_pending st
             then (Inr (st\<lparr>assistant_text := Some txt_step_limit,
                            generated_records := generated_records st @ [step_limit_record st]\<rparr>), s')
             else (Inr st, s'))"







text \<open>A result answers a call: it carries the call's identifier and the parsed arguments.\<close>

definition answers :: "'w env \<Rightarrow> tool_call \<Rightarrow> tool_result \<Rightarrow> bool" where
  "answers env tool_call tool_result =
     ((case tc_id tool_call of
         None \<Rightarrow> True
       | Some i \<Rightarrow> i = [] \<or> tr_tool_call_id tool_result = i)
      \<and> tr_arguments tool_result = parse_arguments env (opt_or (tc_arguments tool_call) ''{}''))"






section \<open>Provider directory and provider fallback\<close>

text \<open>
  The configuration values read by \<^verbatim>\<open>UnifiedLLMClient.resolve_provider\<close> (providers.py)
  and by \<^verbatim>\<open>ChatService._provider_candidates\<close> (chat_service.py). A value that is unset
  reads as the empty string, as \<^verbatim>\<open>getattr(project_config, attr, "") or ""\<close> does.
\<close>

record llm_config =
  default_llm_provider :: string
  default_llm_model :: string
  DEEPSEEK_API_KEY :: string
  DEEPSEEK_BASE_URL :: string
  DEEPSEEK_MODEL :: string
  OPENAI_API_KEY :: string
  OPENAI_BASE_URL :: string
  OPENAI_MODEL :: string
  GEMINI_API_KEY :: string
  GEMINI_BASE_URL :: string
  GEMINI_MODEL :: string
  LLM_AUTO_FALLBACK_ENABLE :: bool
  LLM_FALLBACK_PROVIDERS :: string

record provider_config =
  pc_provider :: string
  pc_api_key :: string
  pc_base_url :: string
  pc_default_model :: string

text \<open>\<^verbatim>\<open>_provider_attr_map\<close>, with the attributes already read from the configuration.\<close>

definition provider_attrs :: "llm_config \<Rightarrow> string \<Rightarrow> (string \<times> string \<times> string) option" where
  "provider_attrs cfg name =
     (if name = ''deepseek'' then Some (DEEPSEEK_API_KEY cfg, DEEPSEEK_BASE_URL cfg, DEEPSEEK_MODEL cfg)
      else if name = ''openai'' then Some (OPENAI_API_KEY cfg, OPENAI_BASE_URL cfg, OPENAI_MODEL cfg)
      else if name = ''gemini'' then Some (GEMINI_API_KEY cfg, GEMINI_BASE_URL cfg, GEMINI_MODEL cfg)
      else None)"

text \<open>Python's \<^verbatim>\<open>s.rstrip("/")\<close> and \<^verbatim>\<open>s.split(",")\<close>.\<close>

definition rstrip_char :: "char \<Rightarrow> string \<Rightarrow> string" where
  "rstrip_char c s = rev (dropWhile (\<lambda>x. x = c) (rev s))"

fun split_on :: "char \<Rightarrow> string \<Rightarrow> string list" where
  "split_on c [] = [[]]"
| "split_on c (x # xs) =
     (if x = c then [] # split_on c xs
      else (case split_on c xs of [] \<Rightarrow> [[x]] | w # ws \<Rightarrow> (x # w) # ws))"

definition resolve_provider ::
  "llm_config \<Rightarrow> string option \<Rightarrow> string option \<Rightarrow> bool \<Rightarrow> exn + provider_config \<times> string" where
  "resolve_provider cfg provider model require_api_key =
     (let resolved_provider = py_lower (py_strip (opt_or provider (default_llm_provider cfg))) in
      case provider_attrs cfg resolved_provider of
        None \<Rightarrow> Inl (CustomException (marker_unsupported @ '': '' @ resolved_provider) 10005)
      | Some (api_key_value, base_url_value, default_model_value) \<Rightarrow>
          (let api_key = py_strip api_key_value;
               base_url = rstrip_char CHR ''/'' (py_strip base_url_value);
               default_model = py_strip default_model_value
           in if base_url = [] then
                Inl (CustomException (resolved_provider @ '' '' @ marker_base_url) 10005)
              else if require_api_key \<and> api_key = [] then
                Inl (CustomException (resolved_provider @ '' '' @ marker_api_key) 10005)
              else
                Inr (\<lparr>pc_provider = resolved_provider, pc_api_key = api_key,
                      pc_base_url = base_url, pc_default_model = default_model\<rparr>,
                     py_strip (opt_or model (py_or default_model (default_llm_model cfg))))))"

text \<open>\<^verbatim>\<open>ChatService._provider_candidates\<close>: the loop that drops repeated names.\<close>

fun dedup_names :: "string list \<Rightarrow> string list \<Rightarrow> string list" where
  "dedup_names candidates [] = candidates"
| "dedup_names candidates (name # rest) =
     (if name = [] \<or> name \<in> set candidates then dedup_names candidates rest
      else dedup_names (candidates @ [name]) rest)"

definition provider_candidates :: "llm_config \<Rightarrow> string \<Rightarrow> string list" where
  "provider_candidates cfg primary_provider =
     (let primary = py_lower (py_strip (py_or primary_provider (default_llm_provider cfg))) in
      if \<not> LLM_AUTO_FALLBACK_ENABLE cfg then [primary]
      else
        (let fallback_list = map (\<lambda>x. py_lower (py_strip x))
                               (filter (\<lambda>x. py_strip x \<noteq> []) (split_on CHR '','' (LLM_FALLBACK_PROVIDERS cfg)));
             candidates = dedup_names [] (primary # fallback_list)
         in if candidates = [] then [primary] else candidates))"

text \<open>\<^verbatim>\<open>ChatService._is_fallback_candidate_error\<close>: the errors that let the loop go on.\<close>

definition fallback_markers :: "string list" where
  "fallback_markers = [marker_request_failed, marker_stream_failed, marker_empty_reply,
                       marker_api_key, marker_base_url, marker_unsupported]"

definition is_fallback_candidate_error :: "exn \<Rightarrow> bool" where
  "is_fallback_candidate_error exc =
     (case exc of
        PyException cls msg \<Rightarrow> True
      | CustomException detail code \<Rightarrow> list_ex (\<lambda>marker. sublist marker detail) fallback_markers)"

text \<open>
  What \<^verbatim>\<open>ChatService._run_completion_with_fallback\<close> returns: the result of the tool
  loop, with \<^verbatim>\<open>fallback_from\<close> and \<^verbatim>\<open>fallback_chain\<close>.
\<close>

record fallback_result =
  fr_state :: loop_state
  fr_fallback_from :: "string option"
  fr_fallback_chain :: "string list"

text \<open>
  The loop \<^verbatim>\<open>for idx, candidate_provider in enumerate(candidates)\<close>, with the index, the
  candidates left, the chain recorded so far and \<^verbatim>\<open>last_error\<close> as arguments; the empty
  list of candidates is the code after the loop.
\<close>

fun fallback_loop ::
  "'w env \<Rightarrow> llm_config \<Rightarrow> bool \<Rightarrow> int option \<Rightarrow> message list \<Rightarrow> string \<Rightarrow> string \<Rightarrow> int
     \<Rightarrow> nat \<Rightarrow> string list \<Rightarrow> string list \<Rightarrow> exn option \<Rightarrow> 'w sys
     \<Rightarrow> (exn + fallback_result) \<times> 'w sys" where
  "fallback_loop env cfg db owner_id llm_messages primary_provider primary_model max_tool_steps
       idx [] chain last_error s =
     (case last_error of
        Some exc \<Rightarrow> (Inl exc, s)
      | None \<Rightarrow> (Inl (CustomException txt_no_provider 10005), s))"
| "fallback_loop env cfg db owner_id llm_messages primary_provider primary_model max_tool_steps
       idx (candidate_provider # rest) chain last_error s =
     (let model_for_candidate =
            (if candidate_provider = primary_provider then Some primary_model else None)
      in case resolve_provider cfg (Some candidate_provider) model_for_candidate True of
           Inl exc \<Rightarrow>
             if \<not> is_fallback_candidate_error exc then (Inl exc, s)
             else fallback_loop env cfg db owner_id llm_messages primary_provider primary_model
                    max_tool_steps (Suc idx) rest (chain @ [candidate_provider]) (Some exc) s
         | Inr (candidate_config, candidate_model) \<Rightarrow>
             (case run_completion_with_tools env db owner_id llm_messages
                     (pc_provider candidate_config) candidate_model max_tool_steps s of
                (Inr st, s1) \<Rightarrow>
                  (Inr \<lparr>fr_state = st,
                        fr_fallback_from = (if idx > 0 then Some primary_provider else None),
                        fr_fallback_chain = chain @ [pc_provider candidate_config]\<rparr>, s1)
              | (Inl exc, s1) \<Rightarrow>
                  if \<not> is_fallback_candidate_error exc then (Inl exc, s1)
                  else fallback_loop env cfg db owner_id llm_messages primary_provider primary_model
                         max_tool_steps (Suc idx) rest (chain @ [pc_provider candidate_config])
                         (Some exc) s1))"

definition run_completion_with_fallback ::
  "'w env \<Rightarrow> llm_config \<Rightarrow> bool \<Rightarrow> int option \<Rightarrow> message list \<Rightarrow> string \<Rightarrow> string \<Rightarrow> int \<Rightarrow> 'w sys
     \<Rightarrow> (exn + fallback_result) \<times> 'w sys" where
  "run_completion_with_fallback env cfg db owner_id llm_messages primary_provider primary_model
       max_tool_steps s =
     fallback_loop env cfg db owner_id llm_messages primary_provider primary_model max_tool_steps
       0 (provider_candidates cfg primary_provider) [] None s"

text \<open>
  For the statement of the fallback property: \<open>attempt\<close> is what trying one candidate
  does (resolve its binding, then run the tool loop), and \<open>state_before\<close> is the state
  of the system in which candidate \<open>k\<close> of a chain is tried, after the candidates before
  it.
\<close>

definition attempt ::
  "'w env \<Rightarrow> llm_config \<Rightarrow> bool \<Rightarrow> int option \<Rightarrow> message list \<Rightarrow> string \<Rightarrow> string \<Rightarrow> int
     \<Rightarrow> string \<Rightarrow> 'w sys \<Rightarrow> (exn + loop_state) \<times> 'w sys" where
  "attempt env cfg db owner_id llm_messages primary_provider primary_model max_tool_steps
       candidate_provider s =
     (case resolve_provider cfg (Some candidate_provider)
             (if candidate_provider = primary_provider then Some primary_model else None) True of
        Inl exc \<Rightarrow> (Inl exc, s)
      | Inr (candidate_config, candidate_model) \<Rightarrow>
          run_completion_with_tools env db owner_id llm_messages
            (pc_provider candidate_config) candidate_model max_tool_steps s)"

fun state_before ::
  "'w env \<Rightarrow> llm_config \<Rightarrow> bool \<Rightarrow> int option \<Rightarrow> message list \<Rightarrow> string \<Rightarrow> string \<Rightarrow> int
     \<Rightarrow> string list \<Rightarrow> nat \<Rightarrow> 'w sys \<Rightarrow> 'w sys" where
  "state_before env cfg db owner_id llm_messages primary_provider primary_model max_tool_steps
       candidates 0 s = s"
| "state_before env cfg db owner_id llm_messages primary_provider primary_model max_tool_steps
       [] (Suc k) s = s"
| "state_before env cfg db owner_id llm_messages primary_provider primary_model max_tool_steps
       (candidate_provider # rest) (Suc k) s =
     state_before env cfg db owner_id llm_messages primary_provider primary_model max_tool_steps
       rest k
       (snd (attempt env cfg db owner_id llm_messages primary_provider primary_model
               max_tool_steps candidate_provider s))"

definition fails_transiently :: "(exn + 'a) \<times> 'b \<Rightarrow> bool" where
  "fails_transiently outcome =
     (case fst outcome of Inl exc \<Rightarrow> is_fallback_candidate_error exc | Inr r \<Rightarrow> False)"

text \<open>A provider name in the form the directory gives it: stripped, lower case, not empty.\<close>

definition normal_name :: "string \<Rightarrow> bool" where
  "normal_name c = (c \<noteq> [] \<and> py_lower (py_strip c) = c)"

text \<open>The alternates configured, as \<^verbatim>\<open>_provider_candidates\<close> reads them.\<close>

definition fallback_list :: "llm_config \<Rightarrow> string list" where
  "fallback_list cfg =
     map (\<lambda>x. py_lower (py_strip x))
       (filter (\<lambda>x. py_strip x \<noteq> []) (split_on CHR '','' (LLM_FALLBACK_PROVIDERS cfg)))"

section \<open>A small environment for the examples\<close>

text \<open>
  The world is a counter that the identifier generator advances. Two tools are
  registered: \<^verbatim>\<open>echo\<close> returns its arguments, \<^verbatim>\<open>fail\<close> raises. Only the text \<^verbatim>\<open>{}\<close>
  parses as JSON, and the writer of JSON only tells the three shapes of content apart.
  The model answers every completion call with one call of \<^verbatim>\<open>echo\<close>.
\<close>

definition demo_tool_call :: tool_call where
  "demo_tool_call = \<lparr>tc_id = Some ''call_1'', tc_name = Some ''echo'', tc_arguments = Some ''{}''\<rparr>"

definition demo_completion :: "string \<Rightarrow> string \<Rightarrow> completion" where
  "demo_completion provider model =
     \<lparr>cmp_provider = provider, cmp_model = model, cmp_content = JNull,
      cmp_tool_calls = [demo_tool_call], cmp_usage = [(''total_tokens'', JNum 5)]\<rparr>"

definition demo_env :: "nat env" where
  "demo_env =
     \<lparr>json_loads = (\<lambda>s. if s = ''{}'' then Some (JObject []) else None),
      json_dumps = (\<lambda>j. case j of
                       JObject [(k, JBool True), (k', v)] \<Rightarrow> ''{ok: true}''
                     | JObject [(k, JBool False), (k', v)] \<Rightarrow> ''{ok: false}''
                     | _ \<Rightarrow> ''{}''),
      str_exc = (\<lambda>e. case e of CustomException d c \<Rightarrow> d | PyException c m \<Rightarrow> m),
      uuid4_hex = (\<lambda>w. (str_nat w, Suc w)),
      tools = [''echo'' \<mapsto> (\<lambda>w a. (Inr a, w)),
               ''fail'' \<mapsto> (\<lambda>w a. (Inl (PyException ''ValueError'' ''boom''), w))],
      llm_chat_completion = (\<lambda>w messages provider model. (Inr (demo_completion provider model), w)),
      find_server_by_tool_name = (\<lambda>w owner_id tool_name. (Inr None, w)),
      http_post = (\<lambda>w endpoint payload timeout. (Inl (PyException ''ConnectError'' ''unreachable''), w))\<rparr>"

text \<open>
  A run of the tool loop in this environment with a budget of one step: the state it
  returns, and the system it leaves.
\<close>

definition demo_user_message :: message where
  "demo_user_message =
     \<lparr>msg_role = RUser, msg_content = ''hi'', msg_tool_call_id = None, msg_tool_calls = []\<rparr>"




text \<open>
  A configuration with two providers set up (the third has no endpoint) and a list of
  alternates written loosely; and an environment in which the first provider is down
  and the second answers without asking for a tool.
\<close>

definition demo_cfg :: llm_config where
  "demo_cfg =
     \<lparr>default_llm_provider = ''deepseek'', default_llm_model = ''deepseek-chat'',
      DEEPSEEK_API_KEY = ''sk-1'', DEEPSEEK_BASE_URL = ''https://api.deepseek.com/'',
      DEEPSEEK_MODEL = ''deepseek-chat'',
      OPENAI_API_KEY = ''sk-2'', OPENAI_BASE_URL = ''https://api.openai.com/v1'',
      OPENAI_MODEL = ''gpt-4o'',
      GEMINI_API_KEY = [], GEMINI_BASE_URL = [], GEMINI_MODEL = [],
      LLM_AUTO_FALLBACK_ENABLE = True,
      LLM_FALLBACK_PROVIDERS = ''OpenAI, deepseek ,gemini''\<rparr>"

definition demo_down :: exn where
  "demo_down = CustomException (marker_request_failed @ ''(500): down'') 10005"

definition demo_answer :: "string \<Rightarrow> string \<Rightarrow> completion" where
  "demo_answer provider model =
     \<lparr>cmp_provider = provider, cmp_model = model, cmp_content = JString ''hello'',
      cmp_tool_calls = [], cmp_usage = [(''total_tokens'', JNum 7)]\<rparr>"

definition demo_fallback_env :: "nat env" where
  "demo_fallback_env =
     demo_env\<lparr>llm_chat_completion :=
       (\<lambda>w messages provider model.
          if provider = ''openai'' then (Inr (demo_answer provider model), w)
          else (Inl demo_down, w))\<rparr>"

definition demo_answer_state :: loop_state where
  "demo_answer_state =
     \<lparr>working_messages =
        [demo_user_message,
         \<lparr>msg_role = RAssistant, msg_content = ''hello'', msg_tool_call_id = None,
           msg_tool_calls = []\<rparr>],
      generated_records =
        [\<lparr>gr_role = RAssistant, gr_content = Some ''hello'', gr_tool_name = None,
           gr_tool_call_id = None, gr_tool_calls = None, gr_provider = Some ''openai'',
           gr_model = Some ''gpt-4o'', gr_token_usage = Some [(''total_tokens'', JNum 7)],
           gr_extra = []\<rparr>],
      tool_runs = [],
      usage_total = [(''total_tokens'', JNum 7)],
      assistant_text = Some ''hello'',
      actual_provider = ''openai'', actual_model = ''gpt-4o'', tool_call_pending = False\<rparr>"

section \<open>Properties of the splitter\<close>

lemma length_strip_by: "length (strip_by sp s) \<le> length s"
proof -
  have "length (dropWhile sp (rev (dropWhile sp s))) \<le> length (rev (dropWhile sp s))"
    by (rule length_dropWhile_le)
  also have "\<dots> \<le> length s"
    by (simp add: length_dropWhile_le)
  finally show ?thesis
    by (simp add: strip_by_def)
qed

lemma length_py_slice:
  assumes "0 \<le> i" "i \<le> j"
  shows "int (length (py_slice xs i j)) \<le> j - i"
  using assms by (auto simp: py_slice_def py_bound_def Let_def min_def)

lemma split_text_loop_returns:
  assumes "1 \<le> chunk_size" "0 \<le> chunk_overlap" "chunk_overlap < chunk_size" "0 \<le> start"
    and "\<forall>c \<in> set chunks. c \<noteq> [] \<and> int (length c) \<le> chunk_size"
  shows "\<exists>r. split_text_loop sp text chunk_size chunk_overlap start chunks = Some r
           \<and> (\<forall>c \<in> set r. c \<noteq> [] \<and> int (length c) \<le> chunk_size)"
  using assms(4,5)
proof (induction "nat (int (length text) - start)" arbitrary: start chunks rule: less_induct)
  case less
  let ?n = "int (length text)"
  show ?case
  proof (cases "start < ?n")
    case False
    then show ?thesis
      using less.prems by (subst split_text_loop.simps) simp
  next
    case True
    define stop where "stop = min (start + chunk_size) ?n"
    define chunk where "chunk = strip_by sp (py_slice text start stop)"
    define chunks' where "chunks' = (if chunk \<noteq> [] then chunks @ [chunk] else chunks)"
    have le_end: "start \<le> stop"
      using True assms(1) by (simp add: stop_def)
    have "int (length chunk) \<le> int (length (py_slice text start stop))"
      unfolding chunk_def using length_strip_by [of sp "py_slice text start stop"] by simp
    also have "\<dots> \<le> stop - start"
      using length_py_slice [OF less.prems(1) le_end] .
    also have "\<dots> \<le> chunk_size"
      by (simp add: stop_def)
    finally have len: "int (length chunk) \<le> chunk_size" .
    have inv: "\<forall>c \<in> set chunks'. c \<noteq> [] \<and> int (length c) \<le> chunk_size"
      using less.prems(2) len by (auto simp: chunks'_def)
    have unfold: "split_text_loop sp text chunk_size chunk_overlap start chunks =
        (if stop \<ge> ?n then Some chunks'
         else split_text_loop sp text chunk_size chunk_overlap (stop - chunk_overlap) chunks')"
      using True
      by (subst split_text_loop.simps) (simp add: Let_def stop_def chunk_def chunks'_def)
    show ?thesis
    proof (cases "stop \<ge> ?n")
      case True
      then show ?thesis using unfold inv by simp
    next
      case False
      then have e: "stop = start + chunk_size"
        by (simp add: stop_def min_def split: if_splits)
      have adv: "start < stop - chunk_overlap"
        using e assms(3) by simp
      have "nat (?n - (stop - chunk_overlap)) < nat (?n - start)"
        using adv \<open>start < ?n\<close> by linarith
      moreover have "0 \<le> stop - chunk_overlap"
        using adv less.prems(1) by linarith
      ultimately obtain r where
        "split_text_loop sp text chunk_size chunk_overlap (stop - chunk_overlap) chunks' = Some r"
        "\<forall>c \<in> set r. c \<noteq> [] \<and> int (length c) \<le> chunk_size"
        using less.hyps [of "stop - chunk_overlap" chunks'] inv by blast
      then show ?thesis using unfold False by simp
    qed
  qed
qed

lemma next_start_advances:
  assumes "next_start text chunk_size chunk_overlap start = Some s'"
  shows "s' = start + (chunk_size - chunk_overlap)"
  using assms by (auto simp: next_start_def Let_def min_def split: if_splits)

lemma clamp_chunk_params:
  "200 \<le> clamp_chunk_size cs \<and> clamp_chunk_size cs \<le> 4000
   \<and> 0 \<le> clamp_chunk_overlap (clamp_chunk_size cs) co
   \<and> clamp_chunk_overlap (clamp_chunk_size cs) co \<le> clamp_chunk_size cs - 1"
  by (auto simp: clamp_chunk_size_def clamp_chunk_overlap_def)

text \<open>
  Claim C10. For every text and every clamped pair of parameters (\<open>chunk_size\<close> in
  [200, 4000], \<open>chunk_overlap\<close> in [0, \<open>chunk_size\<close> - 1]) the splitting loop returns;
  a pass of the loop that does not reach the end of the text moves the window start
  forward by \<open>chunk_size - chunk_overlap\<close>, which is at least 1; and every chunk
  returned is non-empty and at most \<open>chunk_size\<close> characters long.
\<close>

theorem split_text_terminates_bounded:
  assumes "200 \<le> chunk_size" "chunk_size \<le> 4000"
    and "0 \<le> chunk_overlap" "chunk_overlap \<le> chunk_size - 1"
  shows "(\<exists>chunks. split_text sp text chunk_size chunk_overlap = Some chunks
            \<and> (\<forall>c \<in> set chunks. c \<noteq> [] \<and> int (length c) \<le> chunk_size))
         \<and> (\<forall>start s'. next_start text chunk_size chunk_overlap start = Some s'
               \<longrightarrow> s' = start + (chunk_size - chunk_overlap) \<and> s' \<ge> start + 1)"
proof
  show "\<exists>chunks. split_text sp text chunk_size chunk_overlap = Some chunks
            \<and> (\<forall>c \<in> set chunks. c \<noteq> [] \<and> int (length c) \<le> chunk_size)"
    using split_text_loop_returns [of chunk_size chunk_overlap 0 "[]" sp "text"] assms
    by (simp add: split_text_def)
next
  show "\<forall>start s'. next_start text chunk_size chunk_overlap start = Some s'
               \<longrightarrow> s' = start + (chunk_size - chunk_overlap) \<and> s' \<ge> start + 1"
    using next_start_advances [of "text" chunk_size chunk_overlap] assms by fastforce
qed

theorem split_text_terminates_bounded_witness:
  "(200::int) \<le> 200 \<and> (200::int) \<le> 4000 \<and> (0::int) \<le> 50 \<and> (50::int) \<le> 200 - 1
   \<and> (\<exists>chunks. split_text (\<lambda>c. c = CHR '' '') (replicate 250 CHR ''a'') 200 50 = Some chunks
          \<and> (\<forall>c \<in> set chunks. c \<noteq> [] \<and> int (length c) \<le> 200))"
  using split_text_terminates_bounded [of 200 50 "\<lambda>c. c = CHR '' ''" "replicate 250 CHR ''a''"]
  by simp

section \<open>Properties of the quota gate\<close>

lemma redis_get_incr:
  "redis_get (snd (redis_incr r k)) k' = (if k' = k then Some (to_int (redis_get r k) + 1) else redis_get r k')"
  "fst (redis_incr r k) = to_int (redis_get r k) + 1"
  by (simp_all add: redis_incr_def redis_get_def Let_def)

lemma redis_get_expire: "redis_get (redis_expire r k n) k' = redis_get r k'"
  by (simp add: redis_expire_def redis_get_def)

lemma quota_keys_distinct:
  "minute_key mb oid p m \<noteq> day_request_key oid p m ds"
  "minute_key mb oid p m \<noteq> day_token_key oid p m ds"
  "day_request_key oid p m ds \<noteq> day_token_key oid p m ds"
  by (simp_all add: minute_key_def day_request_key_def day_token_key_def)

lemma enforce_token_quota_eq:
  "enforce_token_quota cfg r provider model tk =
     (if max 0 (LLM_TOKEN_QUOTA_PER_DAY cfg) > 0
         \<and> to_int (redis_get r tk) \<ge> max 0 (LLM_TOKEN_QUOTA_PER_DAY cfg)
      then Inl (TokenQuotaExhausted provider model (max 0 (LLM_TOKEN_QUOTA_PER_DAY cfg)))
      else Inr (), Some r)"
  by (auto simp: enforce_token_quota_def Let_def max_def)

lemma enforce_day_requests_eq:
  assumes "dk \<noteq> tk"
  shows "\<exists>r'. snd (enforce_day_requests cfg r provider model dk tk) = Some r'
     \<and> (\<forall>k. k \<noteq> dk \<longrightarrow> redis_get r' k = redis_get r k)
     \<and> (if max 0 (LLM_RATE_LIMIT_REQUESTS_PER_DAY cfg) > 0
         then to_int (redis_get r' dk) = to_int (redis_get r dk) + 1
         else redis_get r' dk = redis_get r dk)
     \<and> fst (enforce_day_requests cfg r provider model dk tk) =
         (if max 0 (LLM_RATE_LIMIT_REQUESTS_PER_DAY cfg) > 0
             \<and> to_int (redis_get r dk) + 1 > max 0 (LLM_RATE_LIMIT_REQUESTS_PER_DAY cfg)
          then Inl (RateLimitedPerDay provider model (max 0 (LLM_RATE_LIMIT_REQUESTS_PER_DAY cfg)))
          else if max 0 (LLM_TOKEN_QUOTA_PER_DAY cfg) > 0
             \<and> to_int (redis_get r tk) \<ge> max 0 (LLM_TOKEN_QUOTA_PER_DAY cfg)
          then Inl (TokenQuotaExhausted provider model (max 0 (LLM_TOKEN_QUOTA_PER_DAY cfg)))
          else Inr ())"
  using assms
  by (auto simp: enforce_day_requests_def enforce_token_quota_eq Let_def split_beta
      redis_get_incr redis_get_expire to_int_def[of "Some _"] max_def)

text \<open>
  Claim C7, as the code has it. The before-request check returns without effect when rate
  limiting is disabled or the counter store is unavailable. Otherwise it increments the
  minute counter and raises a rate-limit error when the incremented count exceeds the
  per-minute ceiling (the configured value, at least 1); only when a day ceiling above 0
  is configured it then increments the day counter of requests and raises a rate-limit
  error when that is exceeded; and only when a token ceiling above 0 is configured it
  reads the day counter of tokens, which it never writes, and raises a quota-exhausted
  error when the tokens used are at or above the ceiling.
\<close>

theorem enforce_before_request_behaviour:
  assumes "provider = quota_provider provider0" and "model = quota_model model0"
    and "mk = minute_key minute_bucket owner_id provider model"
    and "dk = day_request_key owner_id provider model day_str"
    and "tk = day_token_key owner_id provider model day_str"
    and "mlim = max 1 (LLM_RATE_LIMIT_REQUESTS_PER_MINUTE cfg)"
    and "dlim = max 0 (LLM_RATE_LIMIT_REQUESTS_PER_DAY cfg)"
    and "tlim = max 0 (LLM_TOKEN_QUOTA_PER_DAY cfg)"
    and "res = enforce_before_request cfg pool minute_bucket day_str owner_id provider0 model0"
  shows
    "(\<not> LLM_RATE_LIMIT_ENABLE cfg \<or> pool = None \<longrightarrow> res = (Inr (), pool))
     \<and> (LLM_RATE_LIMIT_ENABLE cfg \<and> pool = Some r \<longrightarrow>
          (\<exists>r'. snd res = Some r'
             \<and> to_int (redis_get r' mk) = to_int (redis_get r mk) + 1
             \<and> (if dlim > 0 \<and> to_int (redis_get r mk) + 1 \<le> mlim
                  then to_int (redis_get r' dk) = to_int (redis_get r dk) + 1
                  else redis_get r' dk = redis_get r dk)
             \<and> redis_get r' tk = redis_get r tk
             \<and> fst res =
                 (if to_int (redis_get r mk) + 1 > mlim then Inl (RateLimitedPerMinute provider model mlim)
                  else if dlim > 0 \<and> to_int (redis_get r dk) + 1 > dlim then Inl (RateLimitedPerDay provider model dlim)
                  else if tlim > 0 \<and> to_int (redis_get r tk) \<ge> tlim then Inl (TokenQuotaExhausted provider model tlim)
                  else Inr ())))"
proof (intro conjI impI)
  assume "\<not> LLM_RATE_LIMIT_ENABLE cfg \<or> pool = None"
  then show "res = (Inr (), pool)"
    by (auto simp: assms(9) enforce_before_request_def)
next
  assume en: "LLM_RATE_LIMIT_ENABLE cfg \<and> pool = Some r"
  have ne: "dk \<noteq> tk" "mk \<noteq> dk" "mk \<noteq> tk" "dk \<noteq> mk" "tk \<noteq> mk"
    by (simp_all add: assms(3-5) minute_key_def day_request_key_def day_token_key_def)
  show "\<exists>r'. snd res = Some r'
             \<and> to_int (redis_get r' mk) = to_int (redis_get r mk) + 1
             \<and> (if dlim > 0 \<and> to_int (redis_get r mk) + 1 \<le> mlim
                  then to_int (redis_get r' dk) = to_int (redis_get r dk) + 1
                  else redis_get r' dk = redis_get r dk)
             \<and> redis_get r' tk = redis_get r tk
             \<and> fst res =
                 (if to_int (redis_get r mk) + 1 > mlim then Inl (RateLimitedPerMinute provider model mlim)
                  else if dlim > 0 \<and> to_int (redis_get r dk) + 1 > dlim then Inl (RateLimitedPerDay provider model dlim)
                  else if tlim > 0 \<and> to_int (redis_get r tk) \<ge> tlim then Inl (TokenQuotaExhausted provider model tlim)
                  else Inr ())"
  proof (cases "to_int (redis_get r mk) + 1 > mlim")
    case True
    then show ?thesis
      using en ne
      unfolding assms(9) enforce_before_request_def
      by (simp add: Let_def split_beta redis_get_incr redis_get_expire
          assms(1-6) [symmetric] to_int_def[of "Some _"])
  next
    case False
    define r2 where "r2 = (if fst (redis_incr r mk) = 1 then redis_expire (snd (redis_incr r mk)) mk 70
                           else snd (redis_incr r mk))"
    have r2: "redis_get r2 k = (if k = mk then Some (to_int (redis_get r mk) + 1) else redis_get r k)" for k
      by (simp add: r2_def redis_get_incr redis_get_expire)
    have res: "res = enforce_day_requests cfg r2 provider model dk tk"
      using en False
      unfolding assms(9) enforce_before_request_def
      by (simp add: Let_def split_beta redis_get_incr r2_def assms(1-6) [symmetric])
    from enforce_day_requests_eq [OF ne(1), of cfg r2 provider model]
    obtain r' where r': "snd res = Some r'"
      "\<forall>k. k \<noteq> dk \<longrightarrow> redis_get r' k = redis_get r2 k"
      "if dlim > 0 then to_int (redis_get r' dk) = to_int (redis_get r2 dk) + 1
       else redis_get r' dk = redis_get r2 dk"
      "fst res = (if dlim > 0 \<and> to_int (redis_get r2 dk) + 1 > dlim
          then Inl (RateLimitedPerDay provider model dlim)
          else if tlim > 0 \<and> to_int (redis_get r2 tk) \<ge> tlim
          then Inl (TokenQuotaExhausted provider model tlim)
          else Inr ())"
      unfolding res assms(7,8) by blast
    show ?thesis
      using r' False ne by (intro exI [of _ r']) (simp add: r2 to_int_def[of "Some _"])
  qed
qed


lemma quota_provider_example: "quota_provider '' OpenAI '' = ''openai''"
  by code_simp

theorem enforce_before_request_behaviour_witness:
  "\<exists>r'. snd (enforce_before_request
            \<lparr>LLM_RATE_LIMIT_ENABLE = True, LLM_RATE_LIMIT_REQUESTS_PER_MINUTE = 60,
             LLM_RATE_LIMIT_REQUESTS_PER_DAY = 1000, LLM_TOKEN_QUOTA_PER_DAY = 100\<rparr>
            (Some \<lparr>counters = [day_token_key 7 ''openai'' ''gpt-4'' ''20260101'' \<mapsto> 100], expiry = Map.empty\<rparr>)
            5 ''20260101'' 7 '' OpenAI '' ''gpt-4'') = Some r'
      \<and> to_int (redis_get r' (minute_key 5 7 ''openai'' ''gpt-4'')) = 1
      \<and> to_int (redis_get r' (day_request_key 7 ''openai'' ''gpt-4'' ''20260101'')) = 1
      \<and> redis_get r' (day_token_key 7 ''openai'' ''gpt-4'' ''20260101'') = Some 100
      \<and> fst (enforce_before_request
            \<lparr>LLM_RATE_LIMIT_ENABLE = True, LLM_RATE_LIMIT_REQUESTS_PER_MINUTE = 60,
             LLM_RATE_LIMIT_REQUESTS_PER_DAY = 1000, LLM_TOKEN_QUOTA_PER_DAY = 100\<rparr>
            (Some \<lparr>counters = [day_token_key 7 ''openai'' ''gpt-4'' ''20260101'' \<mapsto> 100], expiry = Map.empty\<rparr>)
            5 ''20260101'' 7 '' OpenAI '' ''gpt-4'') = Inl (TokenQuotaExhausted ''openai'' ''gpt-4'' 100)"
  using enforce_before_request_behaviour [OF refl refl refl refl refl refl refl refl refl,
      of "\<lparr>LLM_RATE_LIMIT_ENABLE = True, LLM_RATE_LIMIT_REQUESTS_PER_MINUTE = 60,
             LLM_RATE_LIMIT_REQUESTS_PER_DAY = 1000, LLM_TOKEN_QUOTA_PER_DAY = 100\<rparr>"
         "Some \<lparr>counters = [day_token_key 7 ''openai'' ''gpt-4'' ''20260101'' \<mapsto> 100], expiry = Map.empty\<rparr>"
         5 "''20260101''" 7 "'' OpenAI ''" "''gpt-4''"
         "\<lparr>counters = [day_token_key 7 ''openai'' ''gpt-4'' ''20260101'' \<mapsto> 100], expiry = Map.empty\<rparr>"]
  apply (simp add: quota_provider_example quota_model_def py_or_def py_strip_def strip_by_def is_space_def
      redis_get_def to_int_def minute_key_def day_request_key_def day_token_key_def)
  done

text \<open>
  With the token quota configured as 0 (no quota) the tokens used, 0, are at the ceiling,
  and the check passes.
\<close>

theorem enforce_before_request_counterexample:
  "to_int (redis_get \<lparr>counters = Map.empty, expiry = Map.empty\<rparr>
             (day_token_key 7 (quota_provider ''openai'') (quota_model ''gpt-4'') ''20260101''))
     \<ge> LLM_TOKEN_QUOTA_PER_DAY
          \<lparr>LLM_RATE_LIMIT_ENABLE = True, LLM_RATE_LIMIT_REQUESTS_PER_MINUTE = 60,
           LLM_RATE_LIMIT_REQUESTS_PER_DAY = 0, LLM_TOKEN_QUOTA_PER_DAY = 0\<rparr>
   \<and> fst (enforce_before_request
            \<lparr>LLM_RATE_LIMIT_ENABLE = True, LLM_RATE_LIMIT_REQUESTS_PER_MINUTE = 60,
             LLM_RATE_LIMIT_REQUESTS_PER_DAY = 0, LLM_TOKEN_QUOTA_PER_DAY = 0\<rparr>
            (Some \<lparr>counters = Map.empty, expiry = Map.empty\<rparr>)
            5 ''20260101'' 7 ''openai'' ''gpt-4'') = Inr ()"
  by (simp add: enforce_before_request_def enforce_day_requests_def enforce_token_quota_def
      redis_incr_def redis_expire_def redis_get_def to_int_def Let_def)

section \<open>Properties of the memory compressor\<close>

lemma get_memory_state_count_nonneg: "0 \<le> snd (get_memory_state c)"
  by (simp add: get_memory_state_def Let_def)

lemma trim_history_rows_drop:
  assumes "0 \<le> c"
  shows "trim_history_rows rows c = drop (nat c) rows"
  using assms by (auto simp: trim_history_rows_def Let_def max_def min_def)

lemma trim_history_rows_clamped:
  assumes "0 \<le> c"
  shows "trim_history_rows rows (max 0 (min c (int (length rows)))) = drop (nat c) rows"
  using assms by (auto simp: trim_history_rows_def Let_def max_def min_def)

lemma snd_get_memory_state_update:
  "snd (get_memory_state (c\<lparr>memory_summary := s, memory_message_count := Some n, memory_updated_at := t\<rparr>)) = max 0 n"
  by (simp add: get_memory_state_def Let_def)


lemma maybe_refresh_summary_cases: 
  assumes "maybe_refresh_summary cfg chat_completion now conversation history_rows
             = ((summary_text, summarized_count), conversation')"
   and st: "get_memory_state conversation = (s0, c0)"
  shows "(conversation' = conversation \<and> summarized_count = c0)
    \<or> (conversation' = conversation \<and> summarized_count = max 0 (min c0 (int (length history_rows))))
    \<or> (\<exists>s. conversation' = conversation\<lparr>memory_summary := Some s,
          memory_message_count := Some (max 0 (int (length history_rows) - max 4 (min (LLM_MEMORY_KEEP_RECENT_MESSAGES cfg) 100))), memory_updated_at := Some now\<rparr>
       \<and> summarized_count = max 0 (int (length history_rows) - max 4 (min (LLM_MEMORY_KEEP_RECENT_MESSAGES cfg) 100))
       \<and> max 6 (LLM_MEMORY_SUMMARY_TRIGGER_MESSAGES cfg) \<le> max 0 (max 0 (int (length history_rows) - max 4 (min (LLM_MEMORY_KEEP_RECENT_MESSAGES cfg) 100)) - max 0 (min c0 (int (length history_rows)))))"
  using assms(1) unfolding maybe_refresh_summary_def st Let_def prod.case
  apply (simp only: split: if_splits sum.splits)
  apply (simp_all (no_asm_use) only: prod.inject not_less)
  apply blast+
  done

text \<open>
  Claim C4. For every conversation and every memory refresh, the stored summarized
  message count does not decrease (neither the count the service reads back, nor the raw
  stored value), and the trimmed history fed to the next completion call is the history
  from the index given by the stored count onwards: no message with an index below that
  count is in it.
\<close>

theorem memory_refresh_monotone_and_trim:
  assumes "maybe_refresh_summary cfg chat_completion now conversation history_rows
             = ((summary_text, summarized_count), conversation')"
  shows "snd (get_memory_state conversation) \<le> snd (get_memory_state conversation')
     \<and> (case memory_message_count conversation of None \<Rightarrow> True
          | Some n \<Rightarrow> (case memory_message_count conversation' of None \<Rightarrow> False | Some n' \<Rightarrow> n \<le> n'))
     \<and> trim_history_rows history_rows summarized_count
          = drop (nat (snd (get_memory_state conversation'))) history_rows"
proof -
  obtain s0 c0 where st: "get_memory_state conversation = (s0, c0)"
    by (cases "get_memory_state conversation")
  have c0: "0 \<le> c0"
    using get_memory_state_count_nonneg [of conversation] st by simp
  have raw: "(case memory_message_count conversation of None \<Rightarrow> 0 | Some n \<Rightarrow> n) \<le> c0"
    using st by (auto simp: get_memory_state_def Let_def)
  let ?size = "int (length history_rows)"
  let ?sc = "max 0 (min c0 ?size)"
  let ?cutoff = "max 0 (?size - max 4 (min (LLM_MEMORY_KEEP_RECENT_MESSAGES cfg) 100))"
  consider
      (keep_raw) "conversation' = conversation" "summarized_count = c0"
    | (keep_clamped) "conversation' = conversation" "summarized_count = ?sc"
    | (refresh) s where "conversation' = conversation\<lparr>memory_summary := Some s,
          memory_message_count := Some ?cutoff, memory_updated_at := Some now\<rparr>"
        "summarized_count = ?cutoff"
        "max 6 (LLM_MEMORY_SUMMARY_TRIGGER_MESSAGES cfg) \<le> max 0 (?cutoff - ?sc)"
    using maybe_refresh_summary_cases [OF assms st] by blast
  then show ?thesis
  proof cases
    case keep_raw
    then show ?thesis
      using st c0 by (simp add: trim_history_rows_drop split: option.splits)
  next
    case keep_clamped
    then show ?thesis
      using st c0 trim_history_rows_clamped [OF c0, of history_rows]
      by (simp split: option.splits)
  next
    case refresh
    have ge: "c0 + 6 \<le> ?cutoff"
      using refresh(3) c0 by (simp add: max_def min_def split: if_splits)
    then have nn: "0 \<le> ?cutoff" using c0 by linarith
    have 1: "snd (get_memory_state conversation') = ?cutoff"
      unfolding refresh(1) snd_get_memory_state_update using nn by simp
    have 2: "memory_message_count conversation' = Some ?cutoff"
      unfolding refresh(1) by simp
    have 3: "trim_history_rows history_rows summarized_count = drop (nat ?cutoff) history_rows"
      unfolding refresh(2) by (rule trim_history_rows_drop [OF nn])
    show ?thesis
      unfolding 1 2 3 using st ge raw c0 by (simp split: option.splits)
  qed
qed


lemma maybe_refresh_summary_example:
  "maybe_refresh_summary
      \<lparr>LLM_MEMORY_ENABLE = True, LLM_MEMORY_SUMMARY_TRIGGER_MESSAGES = 6,
       LLM_MEMORY_KEEP_RECENT_MESSAGES = 4, LLM_MEMORY_SUMMARY_MAX_CHARS = 500\<rparr>
      (\<lambda>s rows. Inr '' prefers short answers '' :: unit + string) 1700000000
      \<lparr>memory_summary = None, memory_message_count = Some 2, memory_updated_at = None\<rparr>
      [0, 1, 2, 3, 4, 5, 6, 7, 8, 9, 10, 11 :: nat]
    = ((Some ''prefers short answers'', 8),
       \<lparr>memory_summary = Some ''prefers short answers'', memory_message_count = Some 8,
        memory_updated_at = Some 1700000000\<rparr>)"
  by code_simp

theorem memory_refresh_monotone_and_trim_witness:
  "snd (get_memory_state \<lparr>memory_summary = None, memory_message_count = Some 2, memory_updated_at = None\<rparr>) = 2
   \<and> snd (get_memory_state \<lparr>memory_summary = Some ''prefers short answers'',
          memory_message_count = Some 8, memory_updated_at = Some 1700000000\<rparr>) = 8
   \<and> trim_history_rows [0, 1, 2, 3, 4, 5, 6, 7, 8, 9, 10, 11 :: nat] 8 = [8, 9, 10, 11]"
  using memory_refresh_monotone_and_trim [OF maybe_refresh_summary_example]
  by (simp add: get_memory_state_def py_strip_def strip_by_def is_space_def)

section \<open>Properties of the retrieval ranking\<close>

lemma sum_list_zip_take:
  "sum_list (map (\<lambda>(x, y). x * y) (zip (take n v) (take n w)))
     = (\<Sum>i<min n (min (length v) (length w)). v ! i * (w ! i :: real))"
proof -
  have "sum_list (map (\<lambda>(x, y). x * y) (zip (take n v) (take n w)))
      = (\<Sum>i = 0..<length (zip (take n v) (take n w)). (map (\<lambda>(x, y). x * y) (zip (take n v) (take n w))) ! i)"
    by (simp add: sum_list_sum_nth)
  also have "\<dots> = (\<Sum>i = 0..<min n (min (length v) (length w)). v ! i * w ! i)"
  proof (rule sum.cong)
    fix i assume "i \<in> {0..<min n (min (length v) (length w))}"
    then have "i < n" "i < length v" "i < length w" by auto
    then show "map (\<lambda>(x, y). x * y) (zip (take n v) (take n w)) ! i = v ! i * w ! i"
      by simp
  qed (simp add: min_def)
  finally show ?thesis by (simp add: atLeast0LessThan)
qed

lemma sum_list_squares_take:
  assumes "n \<le> length v"
  shows "sum_list (map (\<lambda>x. x * x) (take n v)) = (\<Sum>i<n. (v ! i :: real)\<^sup>2)"
proof -
  have "sum_list (map (\<lambda>x. x * x) (take n v))
      = (\<Sum>i = 0..<length (take n v). (map (\<lambda>x. x * x) (take n v)) ! i)"
    by (simp add: sum_list_sum_nth)
  also have "\<dots> = (\<Sum>i = 0..<n. (v ! i)\<^sup>2)"
    using assms by (intro sum.cong) (auto simp: power2_eq_square)
  finally show ?thesis by (simp add: atLeast0LessThan)
qed

lemma cosine_similarity_spec:
  "cosine_similarity v w = spec_cosine v w"
proof (cases "v = [] \<or> w = []")
  case True
  then show ?thesis
    by (auto simp: cosine_similarity_def spec_cosine_def)
next
  case False
  define n where "n = min (length v) (length w)"
  have n: "0 < n" "n \<le> length v" "n \<le> length w"
    using False by (auto simp: n_def)
  have dot: "sum_list (map (\<lambda>(x, y). x * y) (zip (take n v) (take n w))) = (\<Sum>i<n. v ! i * w ! i)"
    using sum_list_zip_take [of n v w] by (simp add: n_def)
  show ?thesis
    using False n(1)
    unfolding cosine_similarity_def spec_cosine_def Let_def n_def [symmetric]
    by (simp add: dot sum_list_squares_take [OF n(2)] sum_list_squares_take [OF n(3)])
qed




lemma cosine_similarity_zero:
  assumes "\<forall>x \<in> set v. x = 0"
  shows "cosine_similarity v w = 0"
proof -
  have "\<forall>x \<in> set xs. x = 0 \<Longrightarrow> sum_list (map (\<lambda>x. x * x) xs) = (0::real)" for xs
    by (induction xs) auto
  then have "sum_list (map (\<lambda>x. x * x) (take n v)) = 0" for n
    using assms by (metis in_set_takeD)
  then show ?thesis
    by (simp add: cosine_similarity_def Let_def)
qed




lemma score_chunks_member:
  assumes "(s, c) \<in> set (score_chunks q chunks)"
  shows "s = cosine_similarity q (chunk_vector c) \<and> 0 < s \<and> c \<in> set chunks"
  using assms by (auto simp: score_chunks_def)









section \<open>Properties of tool execution\<close>








section \<open>Properties of the tool loop\<close>






































section \<open>Properties of the provider fallback\<close>

lemma strip_by_idem: "strip_by sp (strip_by sp s) = strip_by sp s"
proof -
  define u where "u = dropWhile sp s"
  define v where "v = dropWhile sp (rev u)"
  have t: "strip_by sp s = rev v"
    by (simp add: strip_by_def u_def v_def)
  show ?thesis
  proof (cases "v = []")
    case True
    show ?thesis unfolding t True by (simp add: strip_by_def)
  next
    case False
    have hv: "\<not> sp (hd v)"
      using False hd_dropWhile [of sp "rev u"] by (simp add: v_def)
    have "u \<noteq> []" using False by (auto simp: v_def)
    then have hu: "\<not> sp (hd u)"
      using hd_dropWhile [of sp s] by (simp add: u_def)
    obtain w where w: "rev u = w @ v"
      unfolding v_def by (metis takeWhile_dropWhile_id)
    have "last v = last (rev u)"
      using w False by simp
    then have "last v = hd u"
      using \<open>u \<noteq> []\<close> by (simp add: last_rev)
    then have "\<not> sp (hd (rev v))"
      using hu False by (simp add: hd_rev)
    then have 1: "dropWhile sp (rev v) = rev v"
      using False by (cases "rev v") auto
    have 2: "dropWhile sp v = v"
      using hv False by (cases v) auto
    show ?thesis
      unfolding t by (simp add: strip_by_def 1 2)
  qed
qed

lemma is_space_lower_char: "is_space (lower_char c) = is_space c"
proof -
  have "of_char (char_of (of_char c + 32 :: nat)) = (of_char c + 32 :: nat)"
    if "(of_char c :: nat) \<le> 90"
    using that by (simp add: of_char_of)
  then show ?thesis
    by (auto simp: is_space_def lower_char_def Let_def)
qed

lemma lower_char_idem: "lower_char (lower_char c) = lower_char c"
proof -
  have "of_char (char_of (of_char c + 32 :: nat)) = (of_char c + 32 :: nat)"
    if "(of_char c :: nat) \<le> 90"
    using that by (simp add: of_char_of)
  then show ?thesis
    by (auto simp: lower_char_def Let_def)
qed

lemma py_strip_py_lower: "py_strip (py_lower s) = py_lower (py_strip s)"
  by (simp add: py_strip_def py_lower_def strip_by_def dropWhile_map rev_map comp_def
      is_space_lower_char)

lemma py_lower_idem: "py_lower (py_lower s) = py_lower s"
  by (simp add: py_lower_def lower_char_idem)

lemma py_strip_idem: "py_strip (py_strip s) = py_strip s"
  by (simp add: py_strip_def strip_by_idem)

lemma normalise_idem: "py_lower (py_strip (py_lower (py_strip s))) = py_lower (py_strip s)"
  by (simp add: py_strip_py_lower py_strip_idem py_lower_idem)

lemma dedup_names_spec:
  assumes "distinct acc"
  shows "\<exists>ext. dedup_names acc names = acc @ ext
      \<and> subseq ext names
      \<and> distinct (acc @ ext)
      \<and> [] \<notin> set ext
      \<and> set ext = set names - set acc - {[]}"
  using assms
proof (induction names arbitrary: acc)
  case Nil
  then show ?case by simp
next
  case (Cons name rest)
  show ?case
  proof (cases "name = [] \<or> name \<in> set acc")
    case True
    from Cons.IH [OF Cons.prems] obtain ext where
      e: "dedup_names acc rest = acc @ ext" "subseq ext rest" "distinct (acc @ ext)"
        "[] \<notin> set ext" "set ext = set rest - set acc - {[]}"
      by blast
    show ?thesis
      using True e by (intro exI [of _ ext]) auto
  next
    case False
    then have d: "distinct (acc @ [name])" using Cons.prems by simp
    from Cons.IH [OF d] obtain ext where
      e: "dedup_names (acc @ [name]) rest = (acc @ [name]) @ ext" "subseq ext rest"
        "distinct ((acc @ [name]) @ ext)" "[] \<notin> set ext"
        "set ext = set rest - set (acc @ [name]) - {[]}"
      by blast
    show ?thesis
      using False e by (intro exI [of _ "name # ext"]) auto
  qed
qed

lemma py_lower_empty: "py_lower s = [] \<longleftrightarrow> s = []"
  by (simp add: py_lower_def)

lemma fallback_list_normal: "\<forall>c \<in> set (fallback_list cfg). normal_name c"
  by (auto simp: fallback_list_def normal_name_def normalise_idem py_lower_empty)

lemma provider_candidates_spec:
  assumes "normal_name primary_provider"
  shows "\<exists>ext. provider_candidates cfg primary_provider = primary_provider # ext
      \<and> distinct (primary_provider # ext)
      \<and> (\<forall>c \<in> set (primary_provider # ext). normal_name c)
      \<and> (if LLM_AUTO_FALLBACK_ENABLE cfg
          then subseq ext (fallback_list cfg)
             \<and> set ext = set (fallback_list cfg) - {primary_provider}
          else ext = [])"
proof -
  have p: "py_lower (py_strip (py_or primary_provider (default_llm_provider cfg))) = primary_provider"
    "primary_provider \<noteq> []"
    using assms by (simp_all add: normal_name_def py_or_def)
  show ?thesis
  proof (cases "LLM_AUTO_FALLBACK_ENABLE cfg")
    case False
    then show ?thesis
      using assms p by (simp add: provider_candidates_def)
  next
    case True
    have d: "distinct [primary_provider]" by simp
    from dedup_names_spec [OF d, of "fallback_list cfg"] obtain ext where
      e: "dedup_names [primary_provider] (fallback_list cfg) = [primary_provider] @ ext"
        "subseq ext (fallback_list cfg)" "distinct ([primary_provider] @ ext)"
        "set ext = set (fallback_list cfg) - set [primary_provider] - {[]}"
      by blast
    have nn: "[] \<notin> set (fallback_list cfg)"
      using fallback_list_normal [of cfg] by (auto simp: normal_name_def)
    have cs: "provider_candidates cfg primary_provider = primary_provider # ext"
      using True p e(1)
      by (simp add: provider_candidates_def Let_def fallback_list_def [symmetric])
    have "\<forall>c \<in> set ext. normal_name c"
      using e(4) fallback_list_normal [of cfg] by auto
    then show ?thesis
      using cs e True assms nn by (intro exI [of _ ext]) auto
  qed
qed

lemma resolve_provider_name:
  assumes "resolve_provider cfg provider model require_api_key = Inr (candidate_config, candidate_model)"
  shows "pc_provider candidate_config = py_lower (py_strip (opt_or provider (default_llm_provider cfg)))"
  using assms
  by (auto simp: resolve_provider_def Let_def split: option.splits if_splits)

lemma resolve_provider_normal:
  assumes "resolve_provider cfg provider model require_api_key = Inr (candidate_config, candidate_model)"
  shows "normal_name (pc_provider candidate_config)"
proof -
  let ?p = "py_lower (py_strip (opt_or provider (default_llm_provider cfg)))"
  have n: "pc_provider candidate_config = ?p"
    by (rule resolve_provider_name [OF assms])
  have "provider_attrs cfg ?p \<noteq> None"
    using assms by (auto simp: resolve_provider_def Let_def split: option.splits)
  then have "?p \<noteq> []"
    by (auto simp: provider_attrs_def split: if_splits)
  then show ?thesis
    unfolding n normal_name_def by (simp add: normalise_idem)
qed

lemma resolve_provider_candidate:
  assumes "resolve_provider cfg (Some c) model require_api_key = Inr (candidate_config, candidate_model)"
    and "normal_name c"
  shows "pc_provider candidate_config = c"
  using resolve_provider_name [OF assms(1)] assms(2)
  by (simp add: normal_name_def opt_or_def)

lemma fallback_loop_fail_step:
  assumes "attempt env cfg db owner_id llm_messages primary_provider primary_model max_tool_steps c s
             = (Inl exc, s1)"
    and "is_fallback_candidate_error exc" and "normal_name c"
  shows "fallback_loop env cfg db owner_id llm_messages primary_provider primary_model max_tool_steps
           idx (c # rest) chain last_error s
       = fallback_loop env cfg db owner_id llm_messages primary_provider primary_model max_tool_steps
           (Suc idx) rest (chain @ [c]) (Some exc) s1"
proof (cases "resolve_provider cfg (Some c) (if c = primary_provider then Some primary_model else None) True")
  case (Inl e)
  then have "e = exc" "s1 = s"
    using assms(1) by (simp_all add: attempt_def)
  then show ?thesis
    using Inl assms(2) by (simp add: Let_def)
next
  case (Inr p)
  obtain cc cm where p: "p = (cc, cm)" by (cases p)
  have n: "pc_provider cc = c"
    using resolve_provider_candidate [of cfg c _ True cc cm] Inr p assms(3) by simp
  have "run_completion_with_tools env db owner_id llm_messages (pc_provider cc) cm max_tool_steps s
      = (Inl exc, s1)"
    using assms(1) Inr p by (simp add: attempt_def)
  then show ?thesis
    using Inr p assms(2) n by (simp add: Let_def)
qed

lemma fallback_loop_success_step:
  assumes "attempt env cfg db owner_id llm_messages primary_provider primary_model max_tool_steps c s
             = (Inr st, s1)"
    and "normal_name c"
  shows "fallback_loop env cfg db owner_id llm_messages primary_provider primary_model max_tool_steps
           idx (c # rest) chain last_error s
       = (Inr \<lparr>fr_state = st,
               fr_fallback_from = (if idx > 0 then Some primary_provider else None),
               fr_fallback_chain = chain @ [c]\<rparr>, s1)"
proof (cases "resolve_provider cfg (Some c) (if c = primary_provider then Some primary_model else None) True")
  case (Inl e)
  then show ?thesis
    using assms(1) by (simp add: attempt_def)
next
  case (Inr p)
  obtain cc cm where p: "p = (cc, cm)" by (cases p)
  have n: "pc_provider cc = c"
    using resolve_provider_candidate [of cfg c _ True cc cm] Inr p assms(2) by simp
  have "run_completion_with_tools env db owner_id llm_messages (pc_provider cc) cm max_tool_steps s
      = (Inr st, s1)"
    using assms(1) Inr p by (simp add: attempt_def)
  then show ?thesis
    using Inr p n by (simp add: Let_def)
qed

lemma fallback_loop_succeeds_at:
  assumes "k < length cs" and "\<forall>c \<in> set cs. normal_name c"
    and "\<forall>i<k. fails_transiently
            (attempt env cfg db owner_id llm_messages primary_provider primary_model max_tool_steps
               (cs ! i)
               (state_before env cfg db owner_id llm_messages primary_provider primary_model
                  max_tool_steps cs i s))"
    and "attempt env cfg db owner_id llm_messages primary_provider primary_model max_tool_steps
           (cs ! k)
           (state_before env cfg db owner_id llm_messages primary_provider primary_model
              max_tool_steps cs k s) = (Inr st, s')"
  shows "fallback_loop env cfg db owner_id llm_messages primary_provider primary_model max_tool_steps
           idx cs chain last_error s
       = (Inr \<lparr>fr_state = st,
               fr_fallback_from = (if idx + k > 0 then Some primary_provider else None),
               fr_fallback_chain = chain @ take (Suc k) cs\<rparr>, s')"
  using assms
proof (induction k arbitrary: cs idx chain last_error s)
  case 0
  then obtain c rest where cs: "cs = c # rest" by (cases cs) auto
  show ?case
    using 0 fallback_loop_success_step [of env cfg db owner_id llm_messages primary_provider
        primary_model max_tool_steps c s st s' idx rest chain last_error]
    by (simp add: cs)
next
  case (Suc k)
  then obtain c rest where cs: "cs = c # rest" by (cases cs) auto
  let ?a = "attempt env cfg db owner_id llm_messages primary_provider primary_model max_tool_steps c s"
  have "fails_transiently ?a"
    using Suc.prems(3) [rule_format, of 0] by (simp add: cs)
  then obtain exc s1 where a: "?a = (Inl exc, s1)" "is_fallback_candidate_error exc"
    by (cases ?a; cases "fst ?a") (auto simp: fails_transiently_def)
  have step: "fallback_loop env cfg db owner_id llm_messages primary_provider primary_model
           max_tool_steps idx cs chain last_error s
       = fallback_loop env cfg db owner_id llm_messages primary_provider primary_model max_tool_steps
           (Suc idx) rest (chain @ [c]) (Some exc) s1"
    unfolding cs using fallback_loop_fail_step [OF a(1) a(2)] Suc.prems(2) by (simp add: cs)
  have 1: "k < length rest" using Suc.prems(1) by (simp add: cs)
  have 2: "\<forall>c \<in> set rest. normal_name c" using Suc.prems(2) by (simp add: cs)
  have 3: "\<forall>i<k. fails_transiently
            (attempt env cfg db owner_id llm_messages primary_provider primary_model max_tool_steps
               (rest ! i)
               (state_before env cfg db owner_id llm_messages primary_provider primary_model
                  max_tool_steps rest i s1))"
    using Suc.prems(3) a(1) by (auto simp: cs dest: spec [of _ "Suc _"])
  have 4: "attempt env cfg db owner_id llm_messages primary_provider primary_model max_tool_steps
           (rest ! k)
           (state_before env cfg db owner_id llm_messages primary_provider primary_model
              max_tool_steps rest k s1) = (Inr st, s')"
    using Suc.prems(4) a(1) by (simp add: cs)
  show ?case
    unfolding step using Suc.IH [OF 1 2 3 4, of "Suc idx" "chain @ [c]" "Some exc"]
    by (simp add: cs)
qed

end
